theory Spec2Isabelle
  imports Complex_Main
begin

section \<open>Strings\<close>

text \<open>
  JavaScript strings are modelled as \<^typ>\<open>string\<close>. The three string methods the
  locale code relies on are written out for the ASCII range: \<open>trim\<close> strips the ASCII
  white space characters from both ends, \<open>toLowerCase\<close> maps \<open>A\<close>..\<open>Z\<close> to
  \<open>a\<close>..\<open>z\<close>, and \<open>replace(/_/g, "-")\<close> rewrites every underscore.
\<close>

definition is_space :: "char \<Rightarrow> bool" where
  "is_space c = (c \<in> set [CHR 0x09, CHR 0x0A, CHR 0x0B, CHR 0x0C, CHR 0x0D, CHR 0x20])"

definition trim :: "string \<Rightarrow> string" where
  "trim s = rev (dropWhile is_space (rev (dropWhile is_space s)))"

definition upper_letters :: string where
  "upper_letters = ''ABCDEFGHIJKLMNOPQRSTUVWXYZ''"

definition lower_letters :: string where
  "lower_letters = ''abcdefghijklmnopqrstuvwxyz''"

definition lower_char :: "char \<Rightarrow> char" where
  "lower_char c = (case map_of (zip upper_letters lower_letters) c of Some d \<Rightarrow> d | None \<Rightarrow> c)"

definition toLowerCase :: "string \<Rightarrow> string" where
  "toLowerCase s = map lower_char s"

definition replace_underscores :: "string \<Rightarrow> string" where
  "replace_underscores s = map (\<lambda>c. if c = CHR ''_'' then CHR ''-'' else c) s"

text \<open>\<open>s.split(sep)[0]\<close>: the part of \<open>s\<close> before the first separator.\<close>

definition split_first :: "char \<Rightarrow> string \<Rightarrow> string" where
  "split_first sep s = takeWhile (\<lambda>c. c \<noteq> sep) s"

text \<open>\<open>s.split(sep)\<close> for a one-character separator: every piece, empty ones included.\<close>

fun split_on :: "char \<Rightarrow> string \<Rightarrow> string list" where
  "split_on sep [] = [[]]"
| "split_on sep (c # cs) =
     (if c = sep then [] # split_on sep cs
      else (case split_on sep cs of
              [] \<Rightarrow> [[c]]
            | p # ps \<Rightarrow> (c # p) # ps))"

definition digit_char :: "nat \<Rightarrow> char" where
  "digit_char d = ''0123456789'' ! d"

fun show_nat :: "nat \<Rightarrow> string" where
  "show_nat n = (if n < 10 then [digit_char n] else show_nat (n div 10) @ [digit_char (n mod 10)])"

text \<open>
  \<open>String(n)\<close> and the interpolation \<open>`${n}`\<close> of an integer count: its decimal
  digits, with a minus sign below zero.
\<close>

definition String_num :: "int \<Rightarrow> string" where
  "String_num n = (if n < 0 then CHR ''-'' # show_nat (nat (- n)) else show_nat (nat n))"

section \<open>Pluralization (pluralize.ts)\<close>

datatype PluralRuleKey =
  english | french | russian | czech | polish | icelandic | chinese | arabic

text \<open>A word form is a literal or a function of the count.\<close>

datatype Form = Literal string | FormFn "int \<Rightarrow> string"

text \<open>
  The remainder operator \<open>%\<close> of JavaScript takes the sign of the dividend. Counts are
  modelled as integers.
\<close>

definition js_rem :: "int \<Rightarrow> int \<Rightarrow> int" where
  "js_rem a b = sgn a * (\<bar>a\<bar> mod \<bar>b\<bar>)"

fun pluralRules :: "PluralRuleKey \<Rightarrow> int \<Rightarrow> int" where
  "pluralRules english n = (if n \<noteq> 1 then 1 else 0)"
| "pluralRules french n = (if n > 1 then 1 else 0)"
| "pluralRules russian n =
     (if js_rem n 10 = 1 \<and> js_rem n 100 \<noteq> 11 then 0
      else if js_rem n 10 \<ge> 2 \<and> js_rem n 10 \<le> 4 \<and> (js_rem n 100 < 10 \<or> js_rem n 100 \<ge> 20)
      then 1 else 2)"
| "pluralRules czech n = (if n = 1 then 0 else if n \<ge> 2 \<and> n \<le> 4 then 1 else 2)"
| "pluralRules polish n =
     (if n = 1 then 0
      else if js_rem n 10 \<ge> 2 \<and> js_rem n 10 \<le> 4 \<and> (js_rem n 100 < 10 \<or> js_rem n 100 \<ge> 20)
      then 1 else 2)"
| "pluralRules icelandic n = (if js_rem n 10 \<noteq> 1 \<or> js_rem n 100 = 11 then 1 else 0)"
| "pluralRules chinese n = 0"
| "pluralRules arabic n =
     (if n \<ge> 0 \<and> n < 3 then n
      else if js_rem n 100 \<le> 10 then 3
      else if n \<ge> 11 \<and> js_rem n 100 \<le> 99 then 4
      else 5)"

definition normalizeLang :: "string \<Rightarrow> string" where
  "normalizeLang code = replace_underscores (toLowerCase (trim code))"

definition mapping_table :: "(PluralRuleKey \<times> string list) list" where
  "mapping_table =
     [(english, [''da'', ''de'', ''en'', ''es'', ''fi'', ''el'', ''he'', ''hu'', ''it'', ''nl'',
                 ''no'', ''pt'', ''sv'', ''br'']),
      (chinese, [''fa'', ''id'', ''ja'', ''ko'', ''lo'', ''ms'', ''th'', ''tr'', ''zh'', ''jp'']),
      (french, [''fr'', ''tl'', ''pt-br'']),
      (russian, [''hr'', ''ru'', ''uk'', ''uz'']),
      (czech, [''cs'', ''sk'']),
      (icelandic, [''is'']),
      (polish, [''pl'']),
      (arabic, [''ar''])]"

text \<open>
  The module fills \<open>langToRule\<close> by two nested loops over the table, each assignment
  overwriting an earlier one for the same tag.
\<close>

definition langToRule :: "string \<Rightarrow> PluralRuleKey option" where
  "langToRule =
     fold (\<lambda>(ruleKey, langs) m. fold (\<lambda>lang m'. m'(normalizeLang lang \<mapsto> ruleKey)) langs m)
       mapping_table Map.empty"

text \<open>\<open>forms[i]\<close>: \<open>undefined\<close> (here \<open>None\<close>) outside the array.\<close>

definition js_index :: "'a list \<Rightarrow> int \<Rightarrow> 'a option" where
  "js_index xs i = (if 0 \<le> i \<and> i < int (length xs) then Some (xs ! nat i) else None)"

definition ruleKey_for :: "string \<Rightarrow> PluralRuleKey" where
  "ruleKey_for nrm =
     (case langToRule nrm of
        Some r \<Rightarrow> r
      | None \<Rightarrow> (case langToRule (split_first (CHR ''-'') nrm) of
                   Some r \<Rightarrow> r
                 | None \<Rightarrow> english))"

text \<open>
  \<open>pluralize\<close> reads and extends the module-wide set \<open>warned\<close>; the model takes it as
  its first argument and returns it beside the result. \<open>langCode\<close> is \<open>None\<close> when the
  caller leaves it out, and then defaults to \<open>en\<close>. A form is falsy when it is absent or
  the empty literal.
\<close>

definition pluralize :: "string list \<Rightarrow> int \<Rightarrow> Form list \<Rightarrow> string option \<Rightarrow> string \<times> string list" where
  "pluralize warned number forms langCode =
     (let nrm = normalizeLang (case langCode of None \<Rightarrow> ''en'' | Some lc \<Rightarrow> lc);
          base = split_first (CHR ''-'') nrm;
          ruleKey = ruleKey_for nrm;
          warned' = (if langToRule nrm = None \<and> langToRule base = None \<and> nrm \<notin> set warned
                     then warned @ [nrm] else warned);
          idx = pluralRules ruleKey number;
          form = (case js_index forms idx of
                    Some f \<Rightarrow> Some f
                  | None \<Rightarrow> js_index forms (int (length forms) - 1))
      in (case form of
            None \<Rightarrow> String_num number
          | Some (Literal s) \<Rightarrow> if s = [] then String_num number else String_num number @ '' '' @ s
          | Some (FormFn f) \<Rightarrow> f number,
          warned'))"

section \<open>Objects and values\<close>

text \<open>
  A JavaScript object used as a dictionary is an association list of its own properties in
  insertion order, with distinct keys. \<open>obj[k] = v\<close> overwrites the entry in place or
  appends it; \<open>delete obj[k]\<close> removes it; \<open>Object.assign\<close> and the spread
  \<open>{...a, ...b}\<close> assign the entries of the later object over the earlier one. Only own
  properties are modelled: a name that \<open>in\<close> or a property read would find on the
  prototype, such as \<open>constructor\<close>, is taken to be absent.
\<close>

fun set_prop :: "'k \<Rightarrow> 'v \<Rightarrow> ('k \<times> 'v) list \<Rightarrow> ('k \<times> 'v) list" where
  "set_prop k v [] = [(k, v)]"
| "set_prop k v ((k', v') # ps) = (if k' = k then (k, v) # ps else (k', v') # set_prop k v ps)"

definition delete_prop :: "'k \<Rightarrow> ('k \<times> 'v) list \<Rightarrow> ('k \<times> 'v) list" where
  "delete_prop k ps = filter (\<lambda>p. fst p \<noteq> k) ps"

definition assign :: "('k \<times> 'v) list \<Rightarrow> ('k \<times> 'v) list \<Rightarrow> ('k \<times> 'v) list" where
  "assign target source = fold (\<lambda>(k, v) out. set_prop k v out) source target"

text \<open>A default for an argument or option that may be absent.\<close>

definition or_default :: "'a \<Rightarrow> 'a option \<Rightarrow> 'a" where
  "or_default d x = (case x of None \<Rightarrow> d | Some v \<Rightarrow> v)"

text \<open>\<open>d ?? {}\<close> and \<open>d || {}\<close> for an object that may be absent.\<close>

definition or_empty :: "('k \<times> 'v) list option \<Rightarrow> ('k \<times> 'v) list" where
  "or_empty d = (case d of None \<Rightarrow> [] | Some ps \<Rightarrow> ps)"

section \<open>Template compiler (utils/compile.ts)\<close>

text \<open>
  An entry of a template data context is a plain value or a function; \<open>BoundFun f\<close> is
  \<open>f.bind(this)\<close> for the rendering context.
\<close>

datatype tval = DataVal string | FunVal string | BoundFun tval

type_synonym data_context = "(string \<times> tval) list"

text \<open>
  A script may throw any value. \<open>Thrown d\<close> is a value whose \<open>toString()\<close> returns
  \<open>d\<close>: an error object of the sandbox's realm (the failures the engine raises and the
  one of the time budget are such objects), a string or a number. \<open>ThrownNull\<close> and
  \<open>ThrownUndefined\<close> are the two values that have no properties, and
  \<open>ThrownNoToString\<close> is an object without a callable \<open>toString\<close>, such as
  \<open>Object.create(null)\<close>.
\<close>

datatype thrown = Thrown string | ThrownNull | ThrownUndefined | ThrownNoToString

text \<open>
  The host raises \<open>Error(message)\<close>; the script constructor raises a
  \<open>SyntaxError\<close>; a property read on \<open>null\<close> or \<open>undefined\<close> and a call
  of what is not a function raise a \<open>TypeError\<close>.
\<close>

datatype error = Error string | SyntaxError string | TypeError string

text \<open>\<open>err.toString()\<close> in the host: the description, or the \<open>TypeError\<close> it raises.\<close>

fun toString :: "thrown \<Rightarrow> error + string" where
  "toString (Thrown d) = Inr d"
| "toString ThrownNull =
     Inl (TypeError (''Cannot read properties of null (reading '' @ [CHR 0x27] @ ''toString''
                     @ [CHR 0x27] @ '')''))"
| "toString ThrownUndefined =
     Inl (TypeError (''Cannot read properties of undefined (reading '' @ [CHR 0x27] @ ''toString''
                     @ [CHR 0x27] @ '')''))"
| "toString ThrownNoToString = Inl (TypeError ''err.toString is not a function'')"

text \<open>
  The \<open>vm\<close> module of the host is a parameter of the model.
  \<open>script_syntax_error src\<close> is the message of the \<open>SyntaxError\<close> that
  \<open>new vm.Script(src)\<close> raises, \<open>None\<close> when \<open>src\<close> parses.
  \<open>runInNewContext src context timeout\<close> is the outcome of running the script in a
  fresh context under the time budget: the value thrown (the budget's expiry included) or
  the string the template literal evaluates to.
\<close>

record vm =
  script_syntax_error :: "string \<Rightarrow> string option"
  runInNewContext :: "string \<Rightarrow> data_context \<Rightarrow> nat \<Rightarrow> thrown + string"

text \<open>
  A renderer is a closure, represented by the variables it captures: the constant renderer
  \<open>() => literal\<close>, or the function \<open>compile\<close> returns, which holds the template of
  its script, the default context and the time budget of its options.
\<close>

datatype renderer =
  Constant string
| Compiled string "data_context option" nat

definition escape :: "string \<Rightarrow> string" where
  "escape template =
     CHR 0x60 # concat (map (\<lambda>c. if c = CHR 0x60 then [CHR 0x5C, CHR 0x60] else [c]) template)
       @ [CHR 0x60]"

definition compile :: "vm \<Rightarrow> string \<Rightarrow> data_context option \<Rightarrow> nat option \<Rightarrow> error + renderer" where
  "compile m template defaultContext ops =
     (let timeout = or_default 500 ops
      in (case script_syntax_error m (escape template) of
            Some msg \<Rightarrow> Inl (SyntaxError msg)
          | None \<Rightarrow> Inr (Compiled template defaultContext timeout)))"

text \<open>
  Calling a renderer with a data context. In the catch block \<open>err.toString()\<close> is
  evaluated first, and what it raises leaves the renderer as it is.
\<close>

fun call_renderer :: "vm \<Rightarrow> renderer \<Rightarrow> data_context \<Rightarrow> error + string" where
  "call_renderer m (Constant literal) context = Inr literal"
| "call_renderer m (Compiled template defaultContext timeout) context =
     (case runInNewContext m (escape template)
             (assign (assign [] (or_empty defaultContext)) context)
             timeout of
        Inl err \<Rightarrow> (case toString err of Inl e \<Rightarrow> Inl e | Inr d \<Rightarrow> Inl (Error d))
      | Inr s \<Rightarrow> Inr s)"

section \<open>Resource values (i18n.ts)\<close>

text \<open>
  The values of loaded data and of compiled trees. Numeric leaves are only ever tested for
  truthiness and are modelled as integers.
\<close>

datatype jsval =
  Undefined
| Null
| Bool bool
| Num int
| Str string
| Fn renderer
| Arr "jsval list"
| Obj "(string \<times> jsval) list"

type_synonym ResourceTree = "(string \<times> jsval) list"

type_synonym Repository = "(string \<times> ResourceTree) list"

fun truthy :: "jsval \<Rightarrow> bool" where
  "truthy Undefined = False"
| "truthy Null = False"
| "truthy (Bool b) = b"
| "truthy (Num n) = (n \<noteq> 0)"
| "truthy (Str s) = (s \<noteq> [])"
| "truthy (Fn r) = True"
| "truthy (Arr xs) = True"
| "truthy (Obj ps) = True"

fun isPlainObject :: "jsval \<Rightarrow> bool" where
  "isPlainObject (Obj ps) = True"
| "isPlainObject v = False"

record locale_tag =
  full :: string
  base :: string

definition normalizeLocale :: "string \<Rightarrow> locale_tag" where
  "normalizeLocale code =
     (let full = replace_underscores (toLowerCase (trim code))
      in \<lparr>full = full, base = split_first (CHR ''-'') full\<rparr>)"

text \<open>
  \<open>deepMerge\<close>: \<open>out\<close> starts as a copy of \<open>a\<close>, and the loop over the keys of
  \<open>b\<close> assigns each of them in \<open>out\<close>.
\<close>

fun deepMerge :: "ResourceTree \<Rightarrow> ResourceTree \<Rightarrow> ResourceTree" where
  "deepMerge out [] = out"
| "deepMerge out ((k, Obj bv) # b) =
     (case map_of out k of
        Some (Obj av) \<Rightarrow> deepMerge (set_prop k (Obj (deepMerge av bv)) out) b
      | _ \<Rightarrow> deepMerge (set_prop k (Obj bv) out) b)"
| "deepMerge out ((k, bv) # b) = deepMerge (set_prop k bv out) b"

text \<open>\<open>value.includes(sub)\<close> on strings.\<close>

fun str_includes :: "string \<Rightarrow> string \<Rightarrow> bool" where
  "str_includes [] sub = (sub = [])"
| "str_includes (c # cs) sub = (take (length sub) (c # cs) = sub \<or> str_includes cs sub)"

text \<open>
  \<open>compileTemplates\<close> raises what \<open>compile\<close> raises, at the first string of the walk
  whose script does not parse.
\<close>

fun compileTemplates :: "vm \<Rightarrow> jsval \<Rightarrow> error + jsval"
  and compileItems :: "vm \<Rightarrow> jsval list \<Rightarrow> error + jsval list"
  and compileEntries :: "vm \<Rightarrow> (string \<times> jsval) list \<Rightarrow> error + (string \<times> jsval) list" where
  "compileTemplates m Undefined = Inr Undefined"
| "compileTemplates m Null = Inr Null"
| "compileTemplates m (Arr xs) =
     (case compileItems m xs of Inl e \<Rightarrow> Inl e | Inr ys \<Rightarrow> Inr (Arr ys))"
| "compileTemplates m (Obj src) =
     (case compileEntries m src of Inl e \<Rightarrow> Inl e | Inr out \<Rightarrow> Inr (Obj out))"
| "compileTemplates m (Str s) =
     (if str_includes s ''${''
      then (case compile m s None None of Inl e \<Rightarrow> Inl e | Inr r \<Rightarrow> Inr (Fn r))
      else Inr (Fn (Constant s)))"
| "compileTemplates m (Bool b) = Inr (Bool b)"
| "compileTemplates m (Num n) = Inr (Num n)"
| "compileTemplates m (Fn r) = Inr (Fn r)"
| "compileItems m [] = Inr []"
| "compileItems m (x # xs) =
     (case compileTemplates m x of
        Inl e \<Rightarrow> Inl e
      | Inr y \<Rightarrow> (case compileItems m xs of Inl e \<Rightarrow> Inl e | Inr ys \<Rightarrow> Inr (y # ys)))"
| "compileEntries m [] = Inr []"
| "compileEntries m ((key, v) # src) =
     (case compileTemplates m v of
        Inl e \<Rightarrow> Inl e
      | Inr y \<Rightarrow> (case compileEntries m src of Inl e \<Rightarrow> Inl e | Inr out \<Rightarrow> Inr ((key, y) # out)))"

text \<open>
  \<open>getTemplateKeysRecursive\<close> on a tree: the loop over its entries, descending into plain
  objects and recording the dotted path of everything else.
\<close>

fun getTemplateKeysRecursive :: "ResourceTree \<Rightarrow> string \<Rightarrow> string list" where
  "getTemplateKeysRecursive [] prefix = []"
| "getTemplateKeysRecursive ((key, Obj v) # obj) prefix =
     getTemplateKeysRecursive v (if prefix \<noteq> [] then prefix @ ''.'' @ key else key)
       @ getTemplateKeysRecursive obj prefix"
| "getTemplateKeysRecursive ((key, v) # obj) prefix =
     (if prefix \<noteq> [] then prefix @ ''.'' @ key else key) # getTemplateKeysRecursive obj prefix"

section \<open>Locale resolution context (context.ts)\<close>

text \<open>
  The optional flags of \<open>I18nConfig\<close> are \<open>None\<close> when the property is absent; a
  flag is set when it holds \<open>true\<close>.
\<close>

record I18nConfig =
  defaultLanguage :: string
  defaultLanguageOnMissing :: "bool option"
  allowMissing :: "bool option"
  templateData :: "data_context option"

definition flag_set :: "bool option \<Rightarrow> bool" where
  "flag_set f = (f = Some True)"

text \<open>
  The context holds the repository it was created with. \<open>languageCode\<close> and
  \<open>shortLanguageCode\<close> are \<open>None\<close> while they are \<open>undefined\<close>.
\<close>

record I18nContext =
  ctx_repository :: Repository
  ctx_config :: I18nConfig
  languageCode :: "string option"
  shortLanguageCode :: "string option"
  ctx_templateData :: data_context

text \<open>
  \<open>locale(languageCode?)\<close>: the updated context and the value returned. A missing or
  empty argument makes it a getter.
\<close>

definition ctx_locale :: "I18nContext \<Rightarrow> string option \<Rightarrow> I18nContext \<times> string option" where
  "ctx_locale c arg =
     (case arg of
        None \<Rightarrow> (c, languageCode c)
      | Some lc \<Rightarrow>
          if lc = [] then (c, languageCode c)
          else
            (let code = toLowerCase lc;
                 shortCode = split_first (CHR ''-'') code
             in if map_of (ctx_repository c) code = None \<and> map_of (ctx_repository c) shortCode = None
                then (c\<lparr>languageCode := Some (defaultLanguage (ctx_config c)),
                        shortLanguageCode :=
                          Some (split_first (CHR ''-'') (defaultLanguage (ctx_config c)))\<rparr>, None)
                else (c\<lparr>languageCode := Some code, shortLanguageCode := Some shortCode\<rparr>, None)))"

definition I18nContext_new ::
  "Repository \<Rightarrow> I18nConfig \<Rightarrow> string option \<Rightarrow> data_context option \<Rightarrow> I18nContext" where
  "I18nContext_new repo cfg lc tdata =
     (let c = \<lparr>ctx_repository = repo, ctx_config = cfg, languageCode = None,
                shortLanguageCode = None, ctx_templateData = []\<rparr>;
          c' = fst (ctx_locale c
                 (case lc of
                    None \<Rightarrow> Some (defaultLanguage cfg)
                  | Some l \<Rightarrow> if l = [] then Some (defaultLanguage cfg) else Some l))
      in c'\<lparr>ctx_templateData := assign (assign [] (or_empty (templateData cfg))) (or_empty tdata)\<rparr>)"

text \<open>A property name made of a value that may be \<open>undefined\<close>.\<close>

definition prop_name :: "string option \<Rightarrow> string" where
  "prop_name s = (case s of None \<Rightarrow> ''undefined'' | Some n \<Rightarrow> n)"

text \<open>
  \<open>key in acc\<close> and \<open>acc[key]\<close> on the own properties of an object or an array (the
  indices and \<open>length\<close>).
\<close>

fun get_own :: "jsval \<Rightarrow> string \<Rightarrow> jsval option" where
  "get_own (Obj ps) key = map_of ps key"
| "get_own (Arr xs) key =
     (if key = ''length'' then Some (Num (int (length xs)))
      else (case find (\<lambda>i. show_nat i = key) [0..<length xs] of
              Some i \<Rightarrow> Some (xs ! i)
            | None \<Rightarrow> None))"
| "get_own v key = None"

definition lookup_step :: "jsval \<Rightarrow> string \<Rightarrow> jsval" where
  "lookup_step acc key = (case get_own acc key of Some v \<Rightarrow> v | None \<Rightarrow> Undefined)"

definition getTemplate :: "I18nContext \<Rightarrow> string option \<Rightarrow> string \<Rightarrow> jsval" where
  "getTemplate c lc resourceKey =
     (case map_of (ctx_repository c) (prop_name lc) of
        None \<Rightarrow> Undefined
      | Some tree \<Rightarrow>
          if resourceKey = [] then Obj tree
          else foldl lookup_step (Obj tree) (split_on (CHR ''.'') resourceKey))"

text \<open>\<open>a ?? b\<close>.\<close>

fun nullish_or :: "jsval \<Rightarrow> jsval \<Rightarrow> jsval" where
  "nullish_or Undefined b = b"
| "nullish_or Null b = b"
| "nullish_or a b = a"

fun bind_this :: "tval \<Rightarrow> tval" where
  "bind_this (DataVal d) = DataVal d"
| "bind_this f = BoundFun f"

definition not_found :: "string option \<Rightarrow> string \<Rightarrow> error" where
  "not_found lc resourceKey =
     Error (''@tgify/i18n: '' @ [CHR 0x27] @ prop_name lc @ ''.'' @ resourceKey @ [CHR 0x27]
            @ '' not found'')"

text \<open>The template \<open>t\<close> settles on before it tests \<open>typeof template\<close>.\<close>

definition resolve_template :: "I18nContext \<Rightarrow> string \<Rightarrow> jsval" where
  "resolve_template c resourceKey =
     (let template = nullish_or (getTemplate c (languageCode c) resourceKey)
                       (getTemplate c (shortLanguageCode c) resourceKey);
          template = (if \<not> truthy template \<and> flag_set (defaultLanguageOnMissing (ctx_config c))
                      then getTemplate c (Some (defaultLanguage (ctx_config c))) resourceKey
                      else template);
          template = (if \<not> truthy template \<and> flag_set (allowMissing (ctx_config c))
                      then Fn (Constant resourceKey)
                      else template)
      in template)"

text \<open>
  The data context \<open>t\<close> hands to the renderer: the data of the context under the data of
  the call, every function bound to the context.
\<close>

definition render_context :: "I18nContext \<Rightarrow> data_context option \<Rightarrow> data_context" where
  "render_context c tdata =
     map (\<lambda>(key, v). (key, bind_this v)) (assign (assign [] (ctx_templateData c)) (or_empty tdata))"

definition ctx_t :: "vm \<Rightarrow> I18nContext \<Rightarrow> string \<Rightarrow> data_context option \<Rightarrow> error + string" where
  "ctx_t m c resourceKey tdata =
     (case resolve_template c resourceKey of
        Fn template \<Rightarrow>
          call_renderer m template (render_context c tdata)
      | _ \<Rightarrow> Inl (not_found (languageCode c) resourceKey))"

section \<open>Resource tree store (i18n.ts)\<close>

text \<open>
  The configuration of an \<open>I18n\<close> instance extends \<open>I18nConfig\<close>; the options of its
  constructor hold every property optionally.
\<close>

record I18nStoreConfig = I18nConfig +
  directory :: "string option"
  useSession :: "bool option"
  sessionName :: string
  extensions :: "string list"

record I18nOptions =
  opt_defaultLanguage :: "string option"
  opt_defaultLanguageOnMissing :: "bool option"
  opt_allowMissing :: "bool option"
  opt_templateData :: "data_context option"
  opt_directory :: "string option"
  opt_useSession :: "bool option"
  opt_sessionName :: "string option"
  opt_extensions :: "string list option"

record I18n =
  repository :: Repository
  config :: I18nStoreConfig
  keysCache :: "(string \<times> string list) list"

text \<open>
  The constructor: the defaults, overridden by the options given. Scanning a locale
  directory is file input and happens outside the model: the data of each file reaches the
  store through \<open>loadLocale\<close>.
\<close>

definition I18n_new :: "I18nOptions \<Rightarrow> I18n" where
  "I18n_new opts =
     \<lparr>repository = [],
      config =
        \<lparr>defaultLanguage = or_default ''en'' (opt_defaultLanguage opts),
         defaultLanguageOnMissing = opt_defaultLanguageOnMissing opts,
         allowMissing = Some (or_default True (opt_allowMissing opts)),
         templateData =
           Some (or_default [(''pluralize'', FunVal ''pluralize'')] (opt_templateData opts)),
         directory = opt_directory opts,
         useSession = opt_useSession opts,
         sessionName = or_default ''session'' (opt_sessionName opts),
         extensions = or_default [''.json'', ''.yaml'', ''.yml''] (opt_extensions opts)\<rparr>,
      keysCache = []\<rparr>"

definition invalidate :: "I18n \<Rightarrow> string option \<Rightarrow> I18n" where
  "invalidate s language =
     (case language of
        None \<Rightarrow> s\<lparr>keysCache := []\<rparr>
      | Some l \<Rightarrow>
          if l = [] then s\<lparr>keysCache := []\<rparr>
          else s\<lparr>keysCache := delete_prop (toLowerCase l) (keysCache s)\<rparr>)"

definition shape_error :: "string \<Rightarrow> error" where
  "shape_error language =
     Error (''Locale '' @ [CHR 0x27] @ language @ [CHR 0x27] @ '' must contain an object at root'')"

text \<open>
  \<open>loadLocale\<close>: the state after the call and the error raised, if any. Both raises come
  before the first assignment.
\<close>

definition loadLocale :: "vm \<Rightarrow> I18n \<Rightarrow> string \<Rightarrow> jsval \<Rightarrow> I18n \<times> error option" where
  "loadLocale m s lc i18Data =
     (let language = full (normalizeLocale lc)
      in (case compileTemplates m i18Data of
            Inl e \<Rightarrow> (s, Some e)
          | Inr (Obj compiled) \<Rightarrow>
              (invalidate
                 (s\<lparr>repository :=
                      set_prop language
                        (deepMerge (or_empty (map_of (repository s) language)) compiled)
                        (repository s)\<rparr>)
                 (Some language),
               None)
          | Inr _ \<Rightarrow> (s, Some (shape_error language))))"

definition resetLocale :: "I18n \<Rightarrow> string option \<Rightarrow> I18n" where
  "resetLocale s lc =
     (case (if lc = Some [] then None else lc) of
        Some l \<Rightarrow>
          (let f = full (normalizeLocale l)
           in invalidate (s\<lparr>repository := delete_prop f (repository s)\<rparr>) (Some f))
      | None \<Rightarrow> invalidate (s\<lparr>repository := []\<rparr>) None)"

definition availableLocales :: "I18n \<Rightarrow> string list" where
  "availableLocales s = map fst (repository s)"

text \<open>\<open>resourceKeys\<close>: the keys and the state, whose cache may have gained an entry.\<close>

definition resourceKeys :: "I18n \<Rightarrow> string \<Rightarrow> string list \<times> I18n" where
  "resourceKeys s lc =
     (let f = full (normalizeLocale lc)
      in (case map_of (keysCache s) f of
            Some cached \<Rightarrow> (cached, s)
          | None \<Rightarrow>
              (let keys = getTemplateKeysRecursive (or_empty (map_of (repository s) f)) []
               in (keys, s\<lparr>keysCache := set_prop f keys (keysCache s)\<rparr>))))"

text \<open>
  In the three coverage queries the reference language is \<open>None\<close> when the caller leaves
  it out, and then is the default language.
\<close>

definition missingKeys :: "I18n \<Rightarrow> string \<Rightarrow> string option \<Rightarrow> string list \<times> I18n" where
  "missingKeys s languageOfInterest referenceLanguage =
     (let (interest, s1) = resourceKeys s languageOfInterest;
          (reference, s2) =
             resourceKeys s1 (or_default (defaultLanguage (config s)) referenceLanguage)
      in (filter (\<lambda>k. k \<notin> set interest) reference, s2))"

definition overspecifiedKeys :: "I18n \<Rightarrow> string \<Rightarrow> string option \<Rightarrow> string list \<times> I18n" where
  "overspecifiedKeys s languageOfInterest referenceLanguage =
     missingKeys s (or_default (defaultLanguage (config s)) referenceLanguage)
       (Some languageOfInterest)"

text \<open>The quotient is taken in the rationals.\<close>

definition translationProgress :: "I18n \<Rightarrow> string \<Rightarrow> string option \<Rightarrow> rat \<times> I18n" where
  "translationProgress s languageOfInterest referenceLanguage =
     (let ref = or_default (defaultLanguage (config s)) referenceLanguage;
          (reference, s1) = resourceKeys s ref;
          referenceCount = length reference
      in if referenceCount = 0 then (1, s1)
         else (let (missing, s2) = missingKeys s1 languageOfInterest (Some ref);
                   missingCount = length missing
               in ((of_nat referenceCount - of_nat missingCount) / of_nat referenceCount, s2)))"

definition createContext :: "I18n \<Rightarrow> string option \<Rightarrow> data_context option \<Rightarrow> I18nContext" where
  "createContext s lc tdata =
     I18nContext_new (repository s) (I18nConfig.truncate (config s)) lc tdata"

definition I18n_t :: "vm \<Rightarrow> I18n \<Rightarrow> string option \<Rightarrow> string \<Rightarrow> data_context option \<Rightarrow> error + string" where
  "I18n_t m s lc resourceKey tdata =
     ctx_t m (I18nContext_new (repository s) (I18nConfig.truncate (config s)) lc tdata)
       resourceKey None"

section \<open>Auxiliary notions\<close>

text \<open>What normalization does to one character.\<close>

definition norm_char :: "char \<Rightarrow> char" where
  "norm_char c = (if lower_char c = CHR ''_'' then CHR ''-'' else lower_char c)"

text \<open>The value the loop of \<open>deepMerge\<close> stores under a key of the incoming tree.\<close>

definition merged_value :: "jsval option \<Rightarrow> jsval \<Rightarrow> jsval" where
  "merged_value existing incoming =
     (case (existing, incoming) of
        (Some (Obj av), Obj bv) \<Rightarrow> Obj (deepMerge av bv)
      | _ \<Rightarrow> incoming)"

text \<open>A non-function object: a tree or a sequence.\<close>

fun is_tree_node :: "jsval \<Rightarrow> bool" where
  "is_tree_node (Obj ps) = True"
| "is_tree_node (Arr xs) = True"
| "is_tree_node v = False"

section \<open>A worked example\<close>

text \<open>
  A host that knows four scripts: a greeting that reads \<open>name\<close> from its context, a
  call of a function no context defines, an expression that throws \<open>null\<close>, and a
  template that does not parse.
\<close>

definition example_vm :: vm where
  "example_vm =
     \<lparr>script_syntax_error =
        (\<lambda>src. if src = escape ''${)}''
               then Some (''Unexpected token '' @ [CHR 0x27] @ '')'' @ [CHR 0x27])
               else None),
      runInNewContext =
        (\<lambda>src context timeout.
           if src = escape ''Hello, ${name}''
           then (case map_of context ''name'' of
                   Some (DataVal n) \<Rightarrow> Inr (''Hello, '' @ n)
                 | _ \<Rightarrow> Inl (Thrown ''ReferenceError: name is not defined''))
           else if src = escape ''${boom()}''
           then Inl (Thrown ''ReferenceError: boom is not defined'')
           else if src = escape ''${(() => { throw null })()}''
           then Inl ThrownNull
           else Inl (Thrown ''Error: not a script of the example''))\<rparr>"

definition no_options :: I18nOptions where
  "no_options =
     \<lparr>opt_defaultLanguage = None, opt_defaultLanguageOnMissing = None, opt_allowMissing = None,
      opt_templateData = None, opt_directory = None, opt_useSession = None,
      opt_sessionName = None, opt_extensions = None\<rparr>"

definition en_data :: jsval where
  "en_data =
     Obj [(''greeting'', Str ''Hello, ${name}''),
          (''hello'', Str ''Hello''),
          (''menu'', Obj [(''title'', Str ''Menu''), (''items'', Arr [Str ''Tea'', Str ''Cake''])]),
          (''only_default'', Str ''Default only''),
          (''broken'', Str ''${boom()}''),
          (''about'', Str ''About us'')]"

definition pt_data :: jsval where
  "pt_data =
     Obj [(''hello'', Str ''Ola''),
          (''base_only'', Str ''So base''),
          (''footer'', Obj [(''note'', Str ''Nota'')])]"

definition pt_br_data :: jsval where
  "pt_br_data =
     Obj [(''hello'', Str ''Oi''),
          (''menu'', Obj [(''title'', Str ''Cardapio'')]),
          (''about'', Obj [(''team'', Str ''Equipe'')])]"

definition load_examples :: "I18n \<Rightarrow> I18n" where
  "load_examples s =
     fst (loadLocale example_vm
            (fst (loadLocale example_vm (fst (loadLocale example_vm s ''en'' en_data)) ''pt'' pt_data))
            ''pt_BR'' pt_br_data)"

text \<open>
  Stores over the same data: the defaults, the default-locale fallback switched on, missing
  keys refused, and the fallback switched on with missing keys refused.
\<close>

definition example_store :: I18n where
  "example_store = load_examples (I18n_new no_options)"

definition lenient_store :: I18n where
  "lenient_store =
     load_examples (I18n_new (no_options\<lparr>opt_defaultLanguageOnMissing := Some True\<rparr>))"

definition strict_store :: I18n where
  "strict_store = load_examples (I18n_new (no_options\<lparr>opt_allowMissing := Some False\<rparr>))"

definition fallback_only_store :: I18n where
  "fallback_only_store =
     load_examples
       (I18n_new (no_options\<lparr>opt_defaultLanguageOnMissing := Some True,
                               opt_allowMissing := Some False\<rparr>))"

text \<open>Contexts of a Brazilian Portuguese user and of an English one.\<close>

definition lenient_ctx :: I18nContext where
  "lenient_ctx = createContext lenient_store (Some ''pt-BR'') None"

definition strict_ctx :: I18nContext where
  "strict_ctx = createContext strict_store (Some ''pt-BR'') None"

definition lenient_en_ctx :: I18nContext where
  "lenient_en_ctx = createContext lenient_store (Some ''en'') None"

text \<open>A store whose one template throws \<open>null\<close>.\<close>

definition throwing_store :: I18n where
  "throwing_store =
     fst (loadLocale example_vm (I18n_new no_options) ''en''
            (Obj [(''nothing'', Str ''${(() => { throw null })()}'')]))"

text \<open>Two small trees as they are loaded.\<close>

definition raw_a :: ResourceTree where
  "raw_a =
     [(''menu'', Obj [(''title'', Str ''Menu''), (''items'', Str ''Items'')]),
      (''hello'', Str ''Hello''),
      (''bye'', Str ''Bye'')]"

definition raw_b :: ResourceTree where
  "raw_b =
     [(''menu'', Obj [(''title'', Str ''Carte'')]),
      (''hello'', Str ''Hi''),
      (''extra'', Str ''New'')]"

text \<open>A store that holds the first tree as French, with two entries in its key cache.\<close>

definition cached_store :: I18n where
  "cached_store =
     snd (resourceKeys
            (snd (resourceKeys (fst (loadLocale example_vm (I18n_new no_options) ''fr'' (Obj raw_a)))
                    ''fr''))
            ''de'')"

text \<open>The same two trees, compiled.\<close>

definition tree_a :: ResourceTree where
  "tree_a =
     [(''menu'', Obj [(''title'', Fn (Constant ''Menu'')), (''items'', Fn (Constant ''Items''))]),
      (''hello'', Fn (Constant ''Hello'')),
      (''bye'', Fn (Constant ''Bye''))]"

definition tree_b :: ResourceTree where
  "tree_b =
     [(''menu'', Obj [(''title'', Fn (Constant ''Carte''))]),
      (''hello'', Fn (Constant ''Hi'')),
      (''extra'', Fn (Constant ''New''))]"

section \<open>Facts about strings\<close>

lemma lower_char_cases:
  "(lower_char c = c \<and> c \<notin> set upper_letters) \<or>
   (c \<in> set upper_letters \<and> lower_char c \<in> set lower_letters)"
proof (cases "map_of (zip upper_letters lower_letters) c")
  case None
  then have "c \<notin> set upper_letters"
    unfolding map_of_eq_None_iff by (simp add: upper_letters_def lower_letters_def)
  moreover from None have "lower_char c = c"
    by (simp add: lower_char_def)
  ultimately show ?thesis by simp
next
  case (Some d)
  then have "(c, d) \<in> set (zip upper_letters lower_letters)"
    by (rule map_of_SomeD)
  then have "c \<in> set upper_letters" and "d \<in> set lower_letters"
    by (auto dest: set_zip_leftD set_zip_rightD)
  moreover from Some have "lower_char c = d"
    by (simp add: lower_char_def)
  ultimately show ?thesis by simp
qed

lemma lower_not_space: "d \<in> set lower_letters \<Longrightarrow> \<not> is_space d"
  by (auto simp: is_space_def lower_letters_def)

lemma upper_not_space: "d \<in> set upper_letters \<Longrightarrow> \<not> is_space d"
  by (auto simp: is_space_def upper_letters_def)

lemma lower_not_upper: "d \<in> set lower_letters \<Longrightarrow> d \<notin> set upper_letters"
  by (auto simp: lower_letters_def upper_letters_def)

lemma lower_not_underscore: "d \<in> set lower_letters \<Longrightarrow> d \<noteq> CHR ''_''"
  by (auto simp: lower_letters_def)

lemma hyphen_not_upper: "CHR ''-'' \<notin> set upper_letters"
  by (simp add: upper_letters_def)

lemma underscore_not_upper: "CHR ''_'' \<notin> set upper_letters"
  by (simp add: upper_letters_def)

lemma hyphen_not_space: "\<not> is_space (CHR ''-'')"
  by (simp add: is_space_def)

lemma is_space_lower_char: "is_space (lower_char c) = is_space c"
  using lower_char_cases[of c] lower_not_space[of "lower_char c"] upper_not_space[of c]
  by metis

lemma lower_char_idem: "lower_char (lower_char c) = lower_char c"
  using lower_char_cases[of c] lower_char_cases[of "lower_char c"] lower_not_upper[of "lower_char c"]
  by metis

lemma lower_char_underscore: "lower_char c = CHR ''_'' \<longleftrightarrow> c = CHR ''_''"
  using lower_char_cases[of c] lower_not_underscore[of "lower_char c"] underscore_not_upper
  by metis

lemma lower_char_hyphen: "lower_char (CHR ''-'') = CHR ''-''"
  using lower_char_cases[of "CHR ''-''"] hyphen_not_upper by metis

lemma trim_fixed:
  assumes "s = [] \<or> (\<not> is_space (hd s) \<and> \<not> is_space (last s))"
  shows "trim s = s"
proof (cases s)
  case Nil
  then show ?thesis by (simp add: trim_def)
next
  case (Cons a as)
  with assms have h: "\<not> is_space a" and l: "\<not> is_space (last s)" by auto
  from Cons h have 1: "dropWhile is_space s = s" by simp
  from Cons have "rev s \<noteq> []" by simp
  then obtain b bs where r: "rev s = b # bs" by (cases "rev s") auto
  then have "b = last s" using Cons by (metis list.sel(1) hd_rev)
  with l have "dropWhile is_space (b # bs) = b # bs" by simp
  then have 2: "dropWhile is_space (rev s) = rev s" by (simp only: r)
  show ?thesis by (simp add: trim_def 1 2)
qed

lemma trim_ends: "trim s = [] \<or> (\<not> is_space (hd (trim s)) \<and> \<not> is_space (last (trim s)))"
proof -
  let ?u = "dropWhile is_space s"
  let ?v = "dropWhile is_space (rev ?u)"
  have t: "trim s = rev ?v" by (simp add: trim_def)
  show ?thesis
  proof (cases "?v = []")
    case True
    then show ?thesis by (simp add: t)
  next
    case False
    then have lastv: "\<not> is_space (hd ?v)" by (simp add: hd_dropWhile)
    have "?u \<noteq> []"
    proof
      assume a: "?u = []"
      have "?v = dropWhile is_space (rev [])" by (simp only: a)
      then have "?v = []" by simp
      with False show False by blast
    qed
    then have hu: "\<not> is_space (hd ?u)" by (simp add: hd_dropWhile)
    have "rev (rev ?u) = rev (takeWhile is_space (rev ?u) @ ?v)"
      by (simp only: takeWhile_dropWhile_id)
    then have "?u = rev ?v @ rev (takeWhile is_space (rev ?u))"
      by (simp only: rev_rev_ident rev_append)
    with False have "hd ?u = hd (rev ?v)" by (metis hd_append2 rev_is_Nil_conv)
    with hu lastv False show ?thesis
      by (simp add: t last_rev)
  qed
qed

lemma normalize_as_map: "replace_underscores (toLowerCase s) = map norm_char s"
  by (simp add: replace_underscores_def toLowerCase_def norm_char_def)

lemma norm_char_idem: "norm_char (norm_char c) = norm_char c"
  by (simp add: norm_char_def lower_char_idem lower_char_hyphen lower_char_underscore)

lemma is_space_norm_char: "is_space (norm_char c) = is_space c"
  using is_space_lower_char[of c] hyphen_not_space
  by (simp add: norm_char_def lower_char_underscore is_space_def)

lemma trim_normalized:
  "trim (replace_underscores (toLowerCase (trim s))) = replace_underscores (toLowerCase (trim s))"
  unfolding normalize_as_map
proof (rule trim_fixed)
  from trim_ends[of s]
  show "map norm_char (trim s) = [] \<or>
        (\<not> is_space (hd (map norm_char (trim s))) \<and> \<not> is_space (last (map norm_char (trim s))))"
    by (auto simp: hd_map last_map is_space_norm_char)
qed

lemma normalize_chars_idem:
  "replace_underscores (toLowerCase (replace_underscores (toLowerCase s))) =
   replace_underscores (toLowerCase s)"
  by (simp add: normalize_as_map norm_char_idem)

section \<open>Locale tags\<close>

lemma normalizeLocale_idempotent: "normalizeLocale (full (normalizeLocale t)) = normalizeLocale t"
  by (simp add: normalizeLocale_def Let_def trim_normalized normalize_chars_idem)

lemma normalizeLang_idempotent: "normalizeLang (normalizeLang t) = normalizeLang t"
  by (simp add: normalizeLang_def trim_normalized normalize_chars_idem)

text \<open>
  C6. Normalization of a locale tag (trim, lower-case, underscores to hyphens) is idempotent
  and is applied wherever a tag enters: on load, on lookup and on render, the context's
  \<open>locale\<close> included. The store does normalize (\<open>loadLocale\<close>, \<open>resetLocale\<close>,
  \<open>resourceKeys\<close>), and so does \<open>pluralize\<close>; the context only lower-cases. The data
  loaded under \<open>pt_BR\<close> is stored under \<open>pt-br\<close>, and a context created for \<open>pt_BR\<close>
  does not find it: it falls back to the default language and renders the English text,
  where the tag \<open>pt-BR\<close> renders the Brazilian one.
\<close>

theorem locale_only_lower_cases:
  "full (normalizeLocale ''pt_BR'') = ''pt-br''
   \<and> map fst (repository example_store) = [''en'', ''pt'', ''pt-br'']
   \<and> languageCode (createContext example_store (Some ''pt_BR'') None) = Some ''en''
   \<and> I18n_t example_vm example_store (Some ''pt_BR'') ''hello'' None = Inr ''Hello''
   \<and> I18n_t example_vm example_store (Some ''pt-BR'') ''hello'' None = Inr ''Oi''"
  by code_simp

text \<open>
  C2. For every requested tag, resolution sets the effective locale to the normalized tag
  and its base when the repository has the tag or the base, and to the default language
  otherwise. On the tag \<open>PT_br\<close> the normalized tag \<open>pt-br\<close> is a key of the
  repository, yet \<open>locale\<close> looks for \<open>pt_br\<close>, finds neither it nor a base, and
  leaves the context on the default language.
\<close>

theorem locale_misses_normalized_key:
  "full (normalizeLocale ''PT_br'') = ''pt-br''
   \<and> map_of (repository example_store) ''pt-br'' \<noteq> None
   \<and> languageCode (fst (ctx_locale (createContext example_store (Some ''pt'') None) (Some ''PT_br'')))
       = Some ''en''
   \<and> shortLanguageCode (fst (ctx_locale (createContext example_store (Some ''pt'') None) (Some ''PT_br'')))
       = Some ''en''"
  by code_simp

section \<open>Configuration\<close>

text \<open>
  C4. Setting \<open>defaultLanguageOnMissing\<close> implies that \<open>allowMissing\<close> behaves as
  true, even when \<open>allowMissing\<close> was passed as false. The constructor keeps the
  \<open>allowMissing: false\<close> it is given, and a key missing everywhere then raises.
\<close>

theorem defaultLanguageOnMissing_does_not_allow_missing:
  "defaultLanguageOnMissing (config fallback_only_store) = Some True
   \<and> allowMissing (config fallback_only_store) = Some False
   \<and> I18n_t example_vm fallback_only_store (Some ''pt'') ''only_default'' None = Inr ''Default only''
   \<and> I18n_t example_vm fallback_only_store (Some ''pt'') ''nowhere'' None
       = Inl (Error (''@tgify/i18n: '' @ [CHR 0x27] @ ''pt.nowhere'' @ [CHR 0x27] @ '' not found''))"
  by code_simp

section \<open>Pluralization\<close>

lemma pluralRules_range: "0 \<le> pluralRules r n \<and> pluralRules r n \<le> 5"
  by (cases r) auto

lemma js_index_clamp:
  "0 \<le> i \<Longrightarrow>
   (case js_index forms i of Some f \<Rightarrow> Some f | None \<Rightarrow> js_index forms (int (length forms) - 1)) =
   (if forms = [] then None else Some (if nat i < length forms then forms ! nat i else last forms))"
  by (cases forms rule: rev_cases) (auto simp: js_index_def nth_append)

lemma pluralize_result:
  "fst (pluralize warned number forms langCode) =
     (let idx = nat (pluralRules (ruleKey_for (normalizeLang (or_default ''en'' langCode))) number)
      in if forms = [] then String_num number
         else (case (if idx < length forms then forms ! idx else last forms) of
                 FormFn f \<Rightarrow> f number
               | Literal s \<Rightarrow> if s = [] then String_num number else String_num number @ '' '' @ s))"
proof -
  let ?r = "ruleKey_for (normalizeLang (or_default ''en'' langCode))"
  have nn: "0 \<le> pluralRules ?r number"
    using pluralRules_range by blast
  have eq: "(case langCode of None \<Rightarrow> ''en'' | Some lc \<Rightarrow> lc) = or_default ''en'' langCode"
    by (simp add: or_default_def)
  show ?thesis
    unfolding pluralize_def Let_def eq fst_conv js_index_clamp[OF nn]
    by (simp split: Form.splits)
qed

lemma pluralize_apples:
  "fst (pluralize [] 1 [Literal ''apple'', Literal ''apples''] (Some ''en'')) = ''1 apple''"
  "fst (pluralize [] 5 [Literal ''apple'', Literal ''apples''] (Some ''en'')) = ''5 apples''"
  by code_simp+

text \<open>
  C8, as amended. For every integer count and form list, \<open>pluralize\<close> takes the index of
  the language's rule, which lies between 0 and 5, and the form at that index, or the last
  form when the index is past the end. A literal that is not empty gives the count, a
  space and the literal; a function form gives the function applied to the count; an empty
  form list gives the count, and so does a chosen literal that is empty. In particular the
  two apple examples hold.
\<close>

theorem pluralize_selects_form:
  fixes warned number forms langCode
  assumes "idx = nat (pluralRules (ruleKey_for (normalizeLang (or_default ''en'' langCode))) number)"
      and "chosen = (if idx < length forms then forms ! idx else last forms)"
  shows "idx \<le> 5
    \<and> (forms = [] \<longrightarrow> fst (pluralize warned number forms langCode) = String_num number)
    \<and> (forms \<noteq> [] \<longrightarrow>
          (\<forall>s. chosen = Literal s \<and> s \<noteq> [] \<longrightarrow>
             fst (pluralize warned number forms langCode) = String_num number @ '' '' @ s)
        \<and> (chosen = Literal [] \<longrightarrow>
             fst (pluralize warned number forms langCode) = String_num number)
        \<and> (\<forall>f. chosen = FormFn f \<longrightarrow> fst (pluralize warned number forms langCode) = f number))
    \<and> fst (pluralize [] 1 [Literal ''apple'', Literal ''apples''] (Some ''en'')) = ''1 apple''
    \<and> fst (pluralize [] 5 [Literal ''apple'', Literal ''apples''] (Some ''en'')) = ''5 apples''"
proof -
  have "idx \<le> 5"
    using pluralRules_range[of "ruleKey_for (normalizeLang (or_default ''en'' langCode))" number] assms(1)
    by linarith
  moreover have "fst (pluralize warned number forms langCode) =
      (if forms = [] then String_num number
       else (case chosen of
               FormFn f \<Rightarrow> f number
             | Literal s \<Rightarrow> if s = [] then String_num number else String_num number @ '' '' @ s))"
    unfolding pluralize_result Let_def assms by simp
  ultimately show ?thesis
    by (auto simp: pluralize_apples)
qed

lemma plural_examples:
  "nat (pluralRules (ruleKey_for (normalizeLang (or_default ''en'' (Some ''ru_RU'')))) 22) = 1"
  "String_num 22 = ''22''"
  "nat (pluralRules (ruleKey_for (normalizeLang (or_default ''en'' (Some ''ar'')))) 5) = 3"
  "String_num 5 = ''5''"
  by code_simp+

theorem pluralize_selects_form_witness:
  "fst (pluralize [] 22 [Literal ''den'', Literal ''dnya'', Literal ''dney''] (Some ''ru_RU'')) = ''22 dnya''
   \<and> fst (pluralize [] 5 [Literal ''a'', FormFn (\<lambda>n. ''many'')] (Some ''ar'')) = ''many''
   \<and> fst (pluralize [] 5 [Literal ''a'', Literal ''''] (Some ''ar'')) = ''5''
   \<and> fst (pluralize [] 5 [] (Some ''ar'')) = ''5''"
  using pluralize_selects_form[where warned = "[]" and number = 22 and langCode = "Some ''ru_RU''"
          and forms = "[Literal ''den'', Literal ''dnya'', Literal ''dney'']", OF refl refl]
        pluralize_selects_form[where warned = "[]" and number = 5 and langCode = "Some ''ar''"
          and forms = "[Literal ''a'', FormFn (\<lambda>n. ''many'')]", OF refl refl]
        pluralize_selects_form[where warned = "[]" and number = 5 and langCode = "Some ''ar''"
          and forms = "[Literal ''a'', Literal '''']", OF refl refl]
        pluralize_selects_form[where warned = "[]" and number = 5 and langCode = "Some ''ar''"
          and forms = "[]", OF refl refl]
  by (simp add: plural_examples)

text \<open>
  The claim as first stated gives every literal form the shape count, space, literal. The
  empty literal is a falsy form: English count 1 selects it at index 0, and the result is
  the count alone, without the space.
\<close>

theorem pluralize_empty_literal_counterexample:
  "pluralRules (ruleKey_for (normalizeLang ''en'')) 1 = 0
   \<and> fst (pluralize [] 1 [Literal ''''] (Some ''en'')) = ''1''
   \<and> fst (pluralize [] 1 [Literal ''''] (Some ''en'')) \<noteq> String_num 1 @ '' '' @ ''''"
  by code_simp

section \<open>Coverage\<close>

lemma map_of_set_prop: "map_of (set_prop k v ps) = (map_of ps)(k \<mapsto> v)"
  by (induction ps) (auto simp: fun_eq_iff)

lemma resourceKeys_stable:
  "fst (resourceKeys (snd (resourceKeys s a)) b) = fst (resourceKeys s b)"
  by (auto simp: resourceKeys_def Let_def map_of_set_prop split: option.splits)

lemma resourceKeys_config: "config (snd (resourceKeys s a)) = config s"
  by (auto simp: resourceKeys_def Let_def split: option.splits)

lemma missingKeys_keys:
  "fst (missingKeys s x y) =
     filter (\<lambda>k. k \<notin> set (fst (resourceKeys s x)))
       (fst (resourceKeys s (or_default (defaultLanguage (config s)) y)))"
  by (simp add: missingKeys_def Let_def split_beta resourceKeys_stable)

lemma overspecifiedKeys_symmetry:
  "fst (overspecifiedKeys s y (Some x)) = fst (missingKeys s x (Some y))"
  by (simp add: overspecifiedKeys_def or_default_def)

lemma translationProgress_value:
  "fst (translationProgress s x y) =
     (let reference = fst (resourceKeys s (or_default (defaultLanguage (config s)) y));
          missing = fst (missingKeys s x y)
      in if reference = [] then 1
         else (of_nat (length reference) - of_nat (length missing)) / of_nat (length reference))"
  by (simp add: translationProgress_def Let_def split_beta missingKeys_keys resourceKeys_stable
      resourceKeys_config or_default_def)

text \<open>
  C9. For every pair of locales, with \<open>reference\<close> the keys of the reference locale and
  \<open>missing\<close> those of them the locale of interest lacks, \<open>translationProgress\<close> is
  (the number of reference keys less the number of missing keys) over the number of
  reference keys. It lies between 0 and 1, is 1 when the two locales are the same, and is
  1 when the reference locale has no keys.
\<close>

theorem translationProgress_bounds:
  fixes s x y
  assumes "reference = fst (resourceKeys s (or_default (defaultLanguage (config s)) y))"
      and "missing = fst (missingKeys s x y)"
  shows "0 \<le> fst (translationProgress s x y) \<and> fst (translationProgress s x y) \<le> 1
   \<and> fst (translationProgress s x (Some x)) = 1
   \<and> (reference = [] \<longrightarrow> fst (translationProgress s x y) = 1)
   \<and> (reference \<noteq> [] \<longrightarrow>
        fst (translationProgress s x y) =
          (of_nat (length reference) - of_nat (length missing)) / of_nat (length reference))"
proof -
  have le: "length missing \<le> length reference"
    unfolding assms by (simp add: missingKeys_keys)
  have same: "fst (missingKeys s x (Some x)) = []"
    by (simp add: missingKeys_keys or_default_def)
  have v: "fst (translationProgress s x y) =
      (if reference = [] then 1
       else (of_nat (length reference) - of_nat (length missing)) / of_nat (length reference))"
    unfolding assms by (simp add: translationProgress_value Let_def)
  have b: "0 \<le> fst (translationProgress s x y) \<and> fst (translationProgress s x y) \<le> 1"
  proof (cases "reference = []")
    case True
    then show ?thesis by (simp add: v)
  next
    case False
    then have pos: "0 < (of_nat (length reference) :: rat)" by simp
    from le have "(of_nat (length missing) :: rat) \<le> of_nat (length reference)" by simp
    with pos False show ?thesis
      by (simp add: v divide_le_eq le_divide_eq)
  qed
  have e: "fst (translationProgress s x (Some x)) = 1"
    by (simp add: translationProgress_value Let_def same)
  show ?thesis using b e by (simp add: v)
qed

lemma example_keys:
  "fst (resourceKeys example_store ''en'') =
     [''greeting'', ''hello'', ''menu.title'', ''menu.items'', ''only_default'', ''broken'', ''about'']"
  "fst (missingKeys example_store ''pt'' (Some ''en'')) =
     [''greeting'', ''menu.title'', ''menu.items'', ''only_default'', ''broken'', ''about'']"
  "fst (resourceKeys example_store ''fr'') = []"
  by code_simp+

theorem translationProgress_bounds_witness:
  "fst (resourceKeys example_store ''en'') \<noteq> []
   \<and> fst (translationProgress example_store ''pt'' (Some ''en'')) = 1 / 7
   \<and> fst (translationProgress example_store ''pt'' (Some ''pt'')) = 1
   \<and> fst (resourceKeys example_store ''fr'') = []
   \<and> fst (translationProgress example_store ''pt'' (Some ''fr'')) = 1"
  using translationProgress_bounds[where s = example_store and x = "''pt''" and y = "Some ''en''",
          OF refl refl]
        translationProgress_bounds[where s = example_store and x = "''pt''" and y = "Some ''fr''",
          OF refl refl]
  by (simp add: example_keys or_default_def)

section \<open>Deep merge\<close>

lemma deepMerge_Cons:
  "deepMerge out ((k, bv) # b) = deepMerge (set_prop k (merged_value (map_of out k) bv) out) b"
proof (cases bv)
  case (Obj x)
  show ?thesis
  proof (cases "map_of out k")
    case None
    with Obj show ?thesis by (simp add: merged_value_def)
  next
    case (Some v)
    with Obj show ?thesis by (cases v) (simp_all add: merged_value_def)
  qed
qed (simp_all add: merged_value_def split: option.splits jsval.splits)

lemma deepMerge_lookup:
  "distinct (map fst b) \<Longrightarrow>
   map_of (deepMerge a b) k =
     (case map_of b k of None \<Rightarrow> map_of a k | Some bv \<Rightarrow> Some (merged_value (map_of a k) bv))"
proof (induction b arbitrary: a)
  case Nil
  then show ?case by simp
next
  case (Cons p b)
  obtain k' bv where p: "p = (k', bv)" by (cases p)
  from Cons.prems p have nk: "map_of b k' = None" and d: "distinct (map fst b)"
    by (auto simp: map_of_eq_None_iff)
  show ?case
  proof (cases "k = k'")
    case True
    with nk show ?thesis
      unfolding p deepMerge_Cons Cons.IH[OF d] by (simp add: map_of_set_prop)
  next
    case False
    then show ?thesis
      unfolding p deepMerge_Cons Cons.IH[OF d] by (simp add: map_of_set_prop split: option.splits)
  qed
qed

lemma compileEntries_keys: "compileEntries m src = Inr out \<Longrightarrow> map fst out = map fst src"
  by (induction src arbitrary: out) (auto split: sum.splits)

lemma compileTemplates_Obj:
  "compileTemplates m v = Inr (Obj out) \<Longrightarrow> \<exists>src. v = Obj src \<and> compileEntries m src = Inr out"
  by (cases v) (auto split: sum.splits if_splits)

lemma compileTemplates_root_shape:
  "\<not> isPlainObject v \<Longrightarrow> compileTemplates m v = Inr c \<Longrightarrow> \<not> isPlainObject c"
  by (cases v) (auto split: sum.splits if_splits)

lemma loadLocale_success:
  assumes "loadLocale m s lc d = (s', None)"
  shows "\<exists>src B. d = Obj src \<and> compileEntries m src = Inr B \<and>
           repository s' = set_prop (full (normalizeLocale lc))
              (deepMerge (or_empty (map_of (repository s) (full (normalizeLocale lc)))) B) (repository s)"
proof (cases "compileTemplates m d")
  case (Inl e)
  with assms show ?thesis by (simp add: loadLocale_def)
next
  case (Inr c)
  show ?thesis
  proof (cases c)
    case (Obj B)
    with Inr obtain src where "d = Obj src" "compileEntries m src = Inr B"
      using compileTemplates_Obj by blast
    moreover from assms Inr Obj have "s' = invalidate
                 (s\<lparr>repository :=
                      set_prop (full (normalizeLocale lc))
                        (deepMerge (or_empty (map_of (repository s) (full (normalizeLocale lc)))) B)
                        (repository s)\<rparr>)
                 (Some (full (normalizeLocale lc)))"
      by (simp add: loadLocale_def Let_def)
    then have "repository s' = set_prop (full (normalizeLocale lc))
              (deepMerge (or_empty (map_of (repository s) (full (normalizeLocale lc)))) B) (repository s)"
      by (simp add: invalidate_def)
    ultimately show ?thesis by blast
  qed (use assms Inr in \<open>simp_all add: loadLocale_def\<close>)
qed

lemma loadLocale_stores_merge:
  assumes "loadLocale m s lc (Obj src) = (s', None)"
  shows "\<exists>B. compileEntries m src = Inr B \<and>
           map_of (repository s') (full (normalizeLocale lc)) =
             Some (deepMerge (or_empty (map_of (repository s) (full (normalizeLocale lc)))) B)"
proof -
  from loadLocale_success[OF assms] obtain B where
    "compileEntries m src = Inr B"
    "repository s' = set_prop (full (normalizeLocale lc))
       (deepMerge (or_empty (map_of (repository s) (full (normalizeLocale lc)))) B) (repository s)"
    by auto
  then show ?thesis by (simp add: map_of_set_prop)
qed

lemma loadLocale_other_locales:
  assumes "loadLocale m s lc d = (s', None)" and "l \<noteq> full (normalizeLocale lc)"
  shows "map_of (repository s') l = map_of (repository s) l"
proof -
  from loadLocale_success[OF assms(1)] obtain B where
    "repository s' = set_prop (full (normalizeLocale lc))
       (deepMerge (or_empty (map_of (repository s) (full (normalizeLocale lc)))) B) (repository s)"
    by auto
  with assms(2) show ?thesis by (simp add: map_of_set_prop)
qed

lemma deepMerge_three_cases:
  assumes "distinct (map fst B)"
  shows "(\<forall>k av bv. map_of A k = Some (Obj av) \<and> map_of B k = Some (Obj bv) \<longrightarrow>
            map_of (deepMerge A B) k = Some (Obj (deepMerge av bv)))
       \<and> (\<forall>k bv. map_of B k = Some bv \<and> \<not> (isPlainObject bv \<and> (\<exists>av. map_of A k = Some (Obj av))) \<longrightarrow>
            map_of (deepMerge A B) k = Some bv)
       \<and> (\<forall>k. map_of B k = None \<longrightarrow> map_of (deepMerge A B) k = map_of A k)"
proof -
  have 1: "map_of (deepMerge A B) k = Some (Obj (deepMerge av bv))"
    if "map_of A k = Some (Obj av)" "map_of B k = Some (Obj bv)" for k av bv
    using that by (simp add: deepMerge_lookup[OF assms] merged_value_def)
  have 2: "map_of (deepMerge A B) k = Some bv"
    if "map_of B k = Some bv" "\<not> (isPlainObject bv \<and> (\<exists>av. map_of A k = Some (Obj av)))" for k bv
  proof (cases "isPlainObject bv")
    case False
    with that(1) show ?thesis
      by (cases bv)
        (simp_all add: deepMerge_lookup[OF assms] merged_value_def split: option.splits jsval.splits)
  next
    case True
    with that(2) have "\<nexists>av. map_of A k = Some (Obj av)" by simp
    with that(1) show ?thesis
      by (cases "map_of A k")
        (auto simp: deepMerge_lookup[OF assms] merged_value_def split: jsval.splits)
  qed
  have 3: "map_of (deepMerge A B) k = map_of A k" if "map_of B k = None" for k
    using that by (simp add: deepMerge_lookup[OF assms])
  from 1 2 3 show ?thesis by blast
qed

lemma load_then_load:
  assumes d: "distinct (map fst b)"
      and l1: "loadLocale m s lc (Obj a) = (s1, None)"
      and l2: "loadLocale m s1 lc (Obj b) = (s2, None)"
  shows "\<exists>TA TB T1 T2.
               compileTemplates m (Obj a) = Inr (Obj TA)
             \<and> compileTemplates m (Obj b) = Inr (Obj TB)
             \<and> T1 = deepMerge (or_empty (map_of (repository s) (full (normalizeLocale lc)))) TA
             \<and> T2 = deepMerge T1 TB
             \<and> map_of (repository s1) (full (normalizeLocale lc)) = Some T1
             \<and> map_of (repository s2) (full (normalizeLocale lc)) = Some T2
             \<and> (\<forall>k av bv. map_of T1 k = Some (Obj av) \<and> map_of TB k = Some (Obj bv) \<longrightarrow>
                   map_of T2 k = Some (Obj (deepMerge av bv)))
             \<and> (\<forall>k bv. map_of TB k = Some bv
                        \<and> \<not> (isPlainObject bv \<and> (\<exists>av. map_of T1 k = Some (Obj av))) \<longrightarrow>
                   map_of T2 k = Some bv)
             \<and> (\<forall>k. map_of TB k = None \<longrightarrow> map_of T2 k = map_of T1 k)
             \<and> (\<forall>l. l \<noteq> full (normalizeLocale lc) \<longrightarrow>
                   map_of (repository s2) l = map_of (repository s) l)"
proof -
  let ?l = "full (normalizeLocale lc)"
  let ?T0 = "or_empty (map_of (repository s) ?l)"
  from loadLocale_stores_merge[OF l1] obtain TA where
    TA: "compileEntries m a = Inr TA" and T1: "map_of (repository s1) ?l = Some (deepMerge ?T0 TA)"
    by blast
  from loadLocale_stores_merge[OF l2] T1 obtain TB where
    TB: "compileEntries m b = Inr TB"
    and T2: "map_of (repository s2) ?l = Some (deepMerge (deepMerge ?T0 TA) TB)"
    by (auto simp: or_empty_def)
  from TB d have dT: "distinct (map fst TB)"
    by (simp add: compileEntries_keys)
  have ca: "compileTemplates m (Obj a) = Inr (Obj TA)" using TA by simp
  have cb: "compileTemplates m (Obj b) = Inr (Obj TB)" using TB by simp
  have o: "map_of (repository s2) l = map_of (repository s) l" if "l \<noteq> ?l" for l
    using loadLocale_other_locales[OF l1 that] loadLocale_other_locales[OF l2 that] by simp
  have o': "\<forall>l. l \<noteq> ?l \<longrightarrow> map_of (repository s2) l = map_of (repository s) l"
    using o by blast
  note c = deepMerge_three_cases[OF dT, of "deepMerge ?T0 TA"]
  note c1 = c[THEN conjunct1]
  note c2 = c[THEN conjunct2, THEN conjunct1]
  note c3 = c[THEN conjunct2, THEN conjunct2]
  show ?thesis
    by (rule exI[of _ TA], rule exI[of _ TB], rule exI[of _ "deepMerge ?T0 TA"],
        rule exI[of _ "deepMerge (deepMerge ?T0 TA) TB"])
       (intro conjI ca cb refl T1 T2 c1 c2 c3 o')
qed

text \<open>
  C5. Deep merge of an incoming tree \<open>B\<close> into an existing tree \<open>A\<close>: under a key where
  both hold trees the result holds their recursive merge; under every other key of \<open>B\<close>
  it holds the value of \<open>B\<close>, a tree replacing a leaf and a leaf a tree; under a key of
  \<open>A\<close> alone it holds the value of \<open>A\<close>. Loading \<open>a\<close> and then \<open>b\<close> for one
  locale stores exactly these merges: the tree \<open>T1\<close> stored after \<open>a\<close> is the deep
  merge of the compiled \<open>a\<close> into the tree stored before, the tree \<open>T2\<close> stored after
  \<open>b\<close> is the deep merge of the compiled \<open>b\<close> into \<open>T1\<close>, and no other locale
  changes. Hence \<open>T2\<close> holds the value of \<open>b\<close> under every key where \<open>b\<close> has a
  leaf, the recursive merge where both have trees, and the value of \<open>T1\<close> under every
  key \<open>b\<close> lacks. The keys of an object are distinct.
\<close>

theorem deepMerge_by_key:
  assumes "distinct (map fst B)"
  shows "(\<forall>k av bv. map_of A k = Some (Obj av) \<and> map_of B k = Some (Obj bv) \<longrightarrow>
            map_of (deepMerge A B) k = Some (Obj (deepMerge av bv)))
       \<and> (\<forall>k bv. map_of B k = Some bv \<and> \<not> (isPlainObject bv \<and> (\<exists>av. map_of A k = Some (Obj av))) \<longrightarrow>
            map_of (deepMerge A B) k = Some bv)
       \<and> (\<forall>k. map_of B k = None \<longrightarrow> map_of (deepMerge A B) k = map_of A k)
       \<and> (\<forall>m s lc a b s1 s2.
            distinct (map fst b) \<and> loadLocale m s lc (Obj a) = (s1, None)
            \<and> loadLocale m s1 lc (Obj b) = (s2, None) \<longrightarrow>
            (\<exists>TA TB T1 T2.
               compileTemplates m (Obj a) = Inr (Obj TA)
             \<and> compileTemplates m (Obj b) = Inr (Obj TB)
             \<and> T1 = deepMerge (or_empty (map_of (repository s) (full (normalizeLocale lc)))) TA
             \<and> T2 = deepMerge T1 TB
             \<and> map_of (repository s1) (full (normalizeLocale lc)) = Some T1
             \<and> map_of (repository s2) (full (normalizeLocale lc)) = Some T2
             \<and> (\<forall>k av bv. map_of T1 k = Some (Obj av) \<and> map_of TB k = Some (Obj bv) \<longrightarrow>
                   map_of T2 k = Some (Obj (deepMerge av bv)))
             \<and> (\<forall>k bv. map_of TB k = Some bv
                        \<and> \<not> (isPlainObject bv \<and> (\<exists>av. map_of T1 k = Some (Obj av))) \<longrightarrow>
                   map_of T2 k = Some bv)
             \<and> (\<forall>k. map_of TB k = None \<longrightarrow> map_of T2 k = map_of T1 k)
             \<and> (\<forall>l. l \<noteq> full (normalizeLocale lc) \<longrightarrow>
                   map_of (repository s2) l = map_of (repository s) l)))"
proof -
  note c = deepMerge_three_cases[OF assms, of A]
  note c1 = c[THEN conjunct1]
  note c2 = c[THEN conjunct2, THEN conjunct1]
  note c3 = c[THEN conjunct2, THEN conjunct2]
  have c4: "\<forall>m s lc a b s1 s2.
            distinct (map fst b) \<and> loadLocale m s lc (Obj a) = (s1, None)
            \<and> loadLocale m s1 lc (Obj b) = (s2, None) \<longrightarrow>
            (\<exists>TA TB T1 T2.
               compileTemplates m (Obj a) = Inr (Obj TA)
             \<and> compileTemplates m (Obj b) = Inr (Obj TB)
             \<and> T1 = deepMerge (or_empty (map_of (repository s) (full (normalizeLocale lc)))) TA
             \<and> T2 = deepMerge T1 TB
             \<and> map_of (repository s1) (full (normalizeLocale lc)) = Some T1
             \<and> map_of (repository s2) (full (normalizeLocale lc)) = Some T2
             \<and> (\<forall>k av bv. map_of T1 k = Some (Obj av) \<and> map_of TB k = Some (Obj bv) \<longrightarrow>
                   map_of T2 k = Some (Obj (deepMerge av bv)))
             \<and> (\<forall>k bv. map_of TB k = Some bv
                        \<and> \<not> (isPlainObject bv \<and> (\<exists>av. map_of T1 k = Some (Obj av))) \<longrightarrow>
                   map_of T2 k = Some bv)
             \<and> (\<forall>k. map_of TB k = None \<longrightarrow> map_of T2 k = map_of T1 k)
             \<and> (\<forall>l. l \<noteq> full (normalizeLocale lc) \<longrightarrow>
                   map_of (repository s2) l = map_of (repository s) l))"
    by (intro allI impI, elim conjE, rule load_then_load)
  show ?thesis
    by (intro conjI c1 c2 c3 c4)
qed

lemma tree_facts:
  "distinct (map fst tree_b)"
  "map_of tree_a ''menu'' = Some (Obj [(''title'', Fn (Constant ''Menu'')), (''items'', Fn (Constant ''Items''))])"
  "map_of tree_b ''menu'' = Some (Obj [(''title'', Fn (Constant ''Carte''))])"
  "map_of tree_b ''hello'' = Some (Fn (Constant ''Hi''))"
  "map_of tree_b ''bye'' = None"
  "map_of tree_a ''bye'' = Some (Fn (Constant ''Bye''))"
  "deepMerge [(''title'', Fn (Constant ''Menu'')), (''items'', Fn (Constant ''Items''))]
     [(''title'', Fn (Constant ''Carte''))]
   = [(''title'', Fn (Constant ''Carte'')), (''items'', Fn (Constant ''Items''))]"
  by code_simp+

lemma load_facts:
  "distinct (map fst raw_b)"
  "loadLocale example_vm (I18n_new no_options) ''fr_CA'' (Obj raw_a)
     = (fst (loadLocale example_vm (I18n_new no_options) ''fr_CA'' (Obj raw_a)), None)"
  "loadLocale example_vm (fst (loadLocale example_vm (I18n_new no_options) ''fr_CA'' (Obj raw_a)))
       ''fr_CA'' (Obj raw_b)
     = (fst (loadLocale example_vm (fst (loadLocale example_vm (I18n_new no_options) ''fr_CA'' (Obj raw_a)))
          ''fr_CA'' (Obj raw_b)), None)"
  "compileTemplates example_vm (Obj raw_a) = Inr (Obj tree_a)"
  "compileTemplates example_vm (Obj raw_b) = Inr (Obj tree_b)"
  "full (normalizeLocale ''fr_CA'') = ''fr-ca''"
  "or_empty (map_of (repository (I18n_new no_options)) ''fr-ca'') = []"
  "deepMerge (deepMerge [] tree_a) tree_b =
     [(''menu'', Obj [(''title'', Fn (Constant ''Carte'')), (''items'', Fn (Constant ''Items''))]),
      (''hello'', Fn (Constant ''Hi'')),
      (''bye'', Fn (Constant ''Bye'')),
      (''extra'', Fn (Constant ''New''))]"
  by code_simp+

theorem deepMerge_by_key_witness:
  "distinct (map fst tree_b)
   \<and> map_of (deepMerge tree_a tree_b) ''menu'' =
        Some (Obj [(''title'', Fn (Constant ''Carte'')), (''items'', Fn (Constant ''Items''))])
   \<and> map_of (deepMerge tree_a tree_b) ''hello'' = Some (Fn (Constant ''Hi''))
   \<and> map_of (deepMerge tree_a tree_b) ''bye'' = Some (Fn (Constant ''Bye''))
   \<and> map_of (repository
        (fst (loadLocale example_vm
               (fst (loadLocale example_vm (I18n_new no_options) ''fr_CA'' (Obj raw_a)))
               ''fr_CA'' (Obj raw_b)))) ''fr-ca''
       = Some [(''menu'', Obj [(''title'', Fn (Constant ''Carte'')), (''items'', Fn (Constant ''Items''))]),
               (''hello'', Fn (Constant ''Hi'')),
               (''bye'', Fn (Constant ''Bye'')),
               (''extra'', Fn (Constant ''New''))]"
proof -
  note t = deepMerge_by_key[OF tree_facts(1), of tree_a]
  note t1 = t[THEN conjunct1]
  note t2 = t[THEN conjunct2, THEN conjunct1]
  note t3 = t[THEN conjunct2, THEN conjunct2, THEN conjunct1]
  note t4 = t[THEN conjunct2, THEN conjunct2, THEN conjunct2, rule_format,
              OF conjI[OF load_facts(1) conjI[OF load_facts(2) load_facts(3)]]]
  from t1 have m: "map_of (deepMerge tree_a tree_b) ''menu'' =
        Some (Obj (deepMerge [(''title'', Fn (Constant ''Menu'')), (''items'', Fn (Constant ''Items''))]
                     [(''title'', Fn (Constant ''Carte''))]))"
    using tree_facts(2,3) by blast
  from t2 have h: "map_of (deepMerge tree_a tree_b) ''hello'' = Some (Fn (Constant ''Hi''))"
    using tree_facts(4) by (metis isPlainObject.simps(7))
  from t3 have b: "map_of (deepMerge tree_a tree_b) ''bye'' = map_of tree_a ''bye''"
    using tree_facts(5) by blast
  from t4 obtain TA TB T1 T2 where
      TA: "compileTemplates example_vm (Obj raw_a) = Inr (Obj TA)"
    and TB: "compileTemplates example_vm (Obj raw_b) = Inr (Obj TB)"
    and T1: "T1 = deepMerge (or_empty (map_of (repository (I18n_new no_options))
                                (full (normalizeLocale ''fr_CA'')))) TA"
    and T2: "T2 = deepMerge T1 TB"
    and st: "map_of (repository
                (fst (loadLocale example_vm
                       (fst (loadLocale example_vm (I18n_new no_options) ''fr_CA'' (Obj raw_a)))
                       ''fr_CA'' (Obj raw_b)))) (full (normalizeLocale ''fr_CA'')) = Some T2"
    by (elim exE conjE)
  from TA load_facts(4) have "TA = tree_a" by simp
  moreover from TB load_facts(5) have "TB = tree_b" by simp
  ultimately have "T2 = deepMerge (deepMerge [] tree_a) tree_b"
    using T1 T2 by (simp add: load_facts(6,7))
  with st have "map_of (repository
        (fst (loadLocale example_vm
               (fst (loadLocale example_vm (I18n_new no_options) ''fr_CA'' (Obj raw_a)))
               ''fr_CA'' (Obj raw_b)))) ''fr-ca''
       = Some [(''menu'', Obj [(''title'', Fn (Constant ''Carte'')), (''items'', Fn (Constant ''Items''))]),
               (''hello'', Fn (Constant ''Hi'')),
               (''bye'', Fn (Constant ''Bye'')),
               (''extra'', Fn (Constant ''New''))]"
    by (simp add: load_facts(6,8))
  with m h b show ?thesis
    by (simp add: tree_facts)
qed

section \<open>Loading\<close>

text \<open>
  C7, as amended. If the root of the data passed to \<open>loadLocale\<close> is not an object, the
  call raises an error and leaves the store, its repository and its key cache, exactly as
  it was. The error is the root shape error whenever every template of the data compiles;
  when one does not, the compiler's error is raised instead, the store again untouched.
\<close>

theorem loadLocale_rejects_non_object:
  assumes "\<not> isPlainObject i18Data"
  shows "\<exists>e. loadLocale m s lc i18Data = (s, Some e)
           \<and> (\<forall>c. compileTemplates m i18Data = Inr c \<longrightarrow> e = shape_error (full (normalizeLocale lc)))
           \<and> (\<forall>e'. compileTemplates m i18Data = Inl e' \<longrightarrow> e = e')"
proof (cases "compileTemplates m i18Data")
  case (Inl e)
  then show ?thesis by (simp add: loadLocale_def)
next
  case (Inr c)
  with assms have "\<not> isPlainObject c" by (rule compileTemplates_root_shape)
  with Inr show ?thesis by (cases c) (simp_all add: loadLocale_def)
qed

lemma array_root_facts:
  "\<not> isPlainObject (Arr [Str ''Tea''])"
  "compileTemplates example_vm (Arr [Str ''Tea'']) = Inr (Arr [Fn (Constant ''Tea'')])"
  "full (normalizeLocale ''EN'') = ''en''"
  "shape_error ''en'' =
     Error (''Locale '' @ [CHR 0x27] @ ''en'' @ [CHR 0x27] @ '' must contain an object at root'')"
  by code_simp+

theorem loadLocale_rejects_non_object_witness:
  "\<not> isPlainObject (Arr [Str ''Tea''])
   \<and> loadLocale example_vm example_store ''EN'' (Arr [Str ''Tea''])
       = (example_store,
          Some (Error (''Locale '' @ [CHR 0x27] @ ''en'' @ [CHR 0x27] @ '' must contain an object at root'')))"
  using loadLocale_rejects_non_object[OF array_root_facts(1), of example_vm example_store "''EN''"]
  by (auto simp: array_root_facts)

text \<open>
  The claim as first stated promises the root shape error for every root that is not an
  object. A root string whose template does not parse is compiled before its shape is
  looked at, and what the call raises is the compiler's \<open>SyntaxError\<close>.
\<close>

theorem loadLocale_string_root_counterexample:
  "\<not> isPlainObject (Str ''${)}'')
   \<and> loadLocale example_vm example_store ''en'' (Str ''${)}'')
       = (example_store, Some (SyntaxError (''Unexpected token '' @ [CHR 0x27] @ '')'' @ [CHR 0x27])))
   \<and> snd (loadLocale example_vm example_store ''en'' (Str ''${)}'')) \<noteq> Some (shape_error ''en'')"
  by code_simp

section \<open>Rendering\<close>

text \<open>
  C3. If any runtime error occurs while a compiled renderer evaluates, the renderer raises
  one \<open>Error\<close> that carries the description of the failure, and the failure of the
  sandbox never reaches the caller as it is. The catch block builds that \<open>Error\<close>
  from \<open>err.toString()\<close>. A template whose expression throws \<open>null\<close> compiles,
  the sandbox throws, and \<open>err.toString()\<close> raises in the catch block itself: what the
  caller of \<open>t\<close> gets is a \<open>TypeError\<close> about \<open>toString\<close>, not an \<open>Error\<close>
  with a description of the throw.
\<close>

theorem thrown_null_escapes_the_wrapper:
  "compile example_vm ''${(() => { throw null })()}'' None None
     = Inr (Compiled ''${(() => { throw null })()}'' None 500)
   \<and> runInNewContext example_vm (escape ''${(() => { throw null })()}'') [] 500 = Inl ThrownNull
   \<and> call_renderer example_vm (Compiled ''${(() => { throw null })()}'' None 500) []
       = Inl (TypeError (''Cannot read properties of null (reading '' @ [CHR 0x27] @ ''toString''
                         @ [CHR 0x27] @ '')''))
   \<and> I18n_t example_vm throwing_store (Some ''en'') ''nothing'' None
       = Inl (TypeError (''Cannot read properties of null (reading '' @ [CHR 0x27] @ ''toString''
                         @ [CHR 0x27] @ '')''))"
  by code_simp

lemma resolve_template_cases:
  assumes "found = nullish_or (getTemplate c (languageCode c) key) (getTemplate c (shortLanguageCode c) key)"
      and "dflt = getTemplate c (Some (defaultLanguage (ctx_config c))) key"
  shows "resolve_template c key =
     (if truthy found then found
      else if flag_set (defaultLanguageOnMissing (ctx_config c)) \<and> truthy dflt then dflt
      else if flag_set (allowMissing (ctx_config c)) then Fn (Constant key)
      else if flag_set (defaultLanguageOnMissing (ctx_config c)) then dflt else found)"
  unfolding assms resolve_template_def Let_def by simp

lemma ctx_t_of_resolved:
  "resolve_template c key = Fn r \<Longrightarrow> ctx_t m c key tdata = call_renderer m r (render_context c tdata)"
  "(\<forall>r. resolve_template c key \<noteq> Fn r) \<Longrightarrow> ctx_t m c key tdata = Inl (not_found (languageCode c) key)"
  by (auto simp: ctx_t_def split: jsval.splits)

lemma falsy_not_Fn: "\<not> truthy v \<Longrightarrow> v \<noteq> Fn r"
  by (cases v) auto

text \<open>
  C1, as amended. For every context with effective locale \<open>L\<close> and base \<open>B\<close>, \<open>t\<close>
  looks the dotted key up under \<open>L\<close>, and under \<open>B\<close> when \<open>L\<close> gives \<open>undefined\<close>
  or \<open>null\<close>; a Renderer found under \<open>L\<close> is the one rendered. If the value found is
  falsy (nothing was found) and \<open>defaultLanguageOnMissing\<close> is set, it looks the key up
  under the default locale. If the value is still falsy and \<open>allowMissing\<close> is set, it
  returns the raw key. Otherwise it renders the value it settled on when that is a
  Renderer, and fails when it is anything else, nothing or a value that is no function,
  with the error whose message names \<open>L\<close> and the key.
\<close>

theorem t_fallback_chain:
  fixes m c key tdata
  assumes "exact = getTemplate c (languageCode c) key"
      and "found = nullish_or exact (getTemplate c (shortLanguageCode c) key)"
      and "dflt = getTemplate c (Some (defaultLanguage (ctx_config c))) key"
      and "data = render_context c tdata"
  shows
   "(\<forall>r. exact = Fn r \<longrightarrow> ctx_t m c key tdata = call_renderer m r data)
  \<and> ((exact = Undefined \<or> exact = Null) \<longrightarrow> found = getTemplate c (shortLanguageCode c) key)
  \<and> (\<forall>r. found = Fn r \<longrightarrow> ctx_t m c key tdata = call_renderer m r data)
  \<and> (\<forall>r. \<not> truthy found \<and> flag_set (defaultLanguageOnMissing (ctx_config c)) \<and> dflt = Fn r \<longrightarrow>
        ctx_t m c key tdata = call_renderer m r data)
  \<and> (\<not> truthy found \<and> (flag_set (defaultLanguageOnMissing (ctx_config c)) \<longrightarrow> \<not> truthy dflt)
       \<and> flag_set (allowMissing (ctx_config c)) \<longrightarrow> ctx_t m c key tdata = Inr key)
  \<and> (\<not> truthy found \<and> (flag_set (defaultLanguageOnMissing (ctx_config c)) \<longrightarrow> \<not> truthy dflt)
       \<and> \<not> flag_set (allowMissing (ctx_config c)) \<longrightarrow>
        ctx_t m c key tdata = Inl (not_found (languageCode c) key))
  \<and> (truthy found \<and> (\<forall>r. found \<noteq> Fn r) \<longrightarrow>
        ctx_t m c key tdata = Inl (not_found (languageCode c) key))
  \<and> (\<not> truthy found \<and> flag_set (defaultLanguageOnMissing (ctx_config c)) \<and> truthy dflt
       \<and> (\<forall>r. dflt \<noteq> Fn r) \<longrightarrow>
        ctx_t m c key tdata = Inl (not_found (languageCode c) key))
  \<and> (\<forall>l. languageCode c = Some l \<longrightarrow>
        not_found (languageCode c) key =
          Error (''@tgify/i18n: '' @ [CHR 0x27] @ l @ ''.'' @ key @ [CHR 0x27] @ '' not found''))"
proof -
  note rt = resolve_template_cases[OF assms(2)[unfolded assms(1)] assms(3), folded assms(1)]
  have f1: "found = Fn r" if "exact = Fn r" for r
    using that assms(2) by simp
  have 3: "ctx_t m c key tdata = call_renderer m r data" if "found = Fn r" for r
    using that ctx_t_of_resolved(1)[of c key r m tdata] rt assms(4) by simp
  have 2: "found = getTemplate c (shortLanguageCode c) key" if "exact = Undefined \<or> exact = Null"
    using that assms(2) by auto
  have 4: "ctx_t m c key tdata = call_renderer m r data"
    if "\<not> truthy found" "flag_set (defaultLanguageOnMissing (ctx_config c))" "dflt = Fn r" for r
    using that ctx_t_of_resolved(1)[of c key r m tdata] rt assms(4) by simp
  have 5: "ctx_t m c key tdata = Inr key"
    if "\<not> truthy found" "flag_set (defaultLanguageOnMissing (ctx_config c)) \<longrightarrow> \<not> truthy dflt"
       "flag_set (allowMissing (ctx_config c))"
  proof -
    from that rt have "resolve_template c key = Fn (Constant key)" by auto
    then show ?thesis using ctx_t_of_resolved(1) by simp
  qed
  have 6: "ctx_t m c key tdata = Inl (not_found (languageCode c) key)"
    if "\<not> truthy found" "flag_set (defaultLanguageOnMissing (ctx_config c)) \<longrightarrow> \<not> truthy dflt"
       "\<not> flag_set (allowMissing (ctx_config c))"
  proof -
    from that rt have "\<not> truthy (resolve_template c key)" by auto
    then have "\<forall>r. resolve_template c key \<noteq> Fn r" using falsy_not_Fn by blast
    then show ?thesis by (rule ctx_t_of_resolved(2))
  qed
  have 7: "ctx_t m c key tdata = Inl (not_found (languageCode c) key)"
    if "truthy found" "\<forall>r. found \<noteq> Fn r"
  proof -
    from that rt have "\<forall>r. resolve_template c key \<noteq> Fn r" by simp
    then show ?thesis by (rule ctx_t_of_resolved(2))
  qed
  have 8: "ctx_t m c key tdata = Inl (not_found (languageCode c) key)"
    if "\<not> truthy found" "flag_set (defaultLanguageOnMissing (ctx_config c))" "truthy dflt"
       "\<forall>r. dflt \<noteq> Fn r"
  proof -
    from that rt have "\<forall>r. resolve_template c key \<noteq> Fn r" by simp
    then show ?thesis by (rule ctx_t_of_resolved(2))
  qed
  have 9: "not_found (languageCode c) key =
          Error (''@tgify/i18n: '' @ [CHR 0x27] @ l @ ''.'' @ key @ [CHR 0x27] @ '' not found'')"
    if "languageCode c = Some l" for l
    using that by (simp add: not_found_def prop_name_def)
  from f1 2 3 4 5 6 7 8 9 show ?thesis by blast
qed

lemma lenient_facts:
  "languageCode lenient_ctx = Some ''pt-br''"
  "shortLanguageCode lenient_ctx = Some ''pt''"
  "defaultLanguage (ctx_config lenient_ctx) = ''en''"
  "flag_set (defaultLanguageOnMissing (ctx_config lenient_ctx))"
  "flag_set (allowMissing (ctx_config lenient_ctx))"
  "getTemplate lenient_ctx (Some ''pt-br'') ''hello'' = Fn (Constant ''Oi'')"
  "getTemplate lenient_ctx (Some ''pt'') ''hello'' = Fn (Constant ''Ola'')"
  "getTemplate lenient_ctx (Some ''en'') ''hello'' = Fn (Constant ''Hello'')"
  "getTemplate lenient_ctx (Some ''pt-br'') ''base_only'' = Undefined"
  "getTemplate lenient_ctx (Some ''pt'') ''base_only'' = Fn (Constant ''So base'')"
  "getTemplate lenient_ctx (Some ''pt-br'') ''only_default'' = Undefined"
  "getTemplate lenient_ctx (Some ''pt'') ''only_default'' = Undefined"
  "getTemplate lenient_ctx (Some ''en'') ''only_default'' = Fn (Constant ''Default only'')"
  "getTemplate lenient_ctx (Some ''pt-br'') ''nowhere'' = Undefined"
  "getTemplate lenient_ctx (Some ''pt'') ''nowhere'' = Undefined"
  "getTemplate lenient_ctx (Some ''en'') ''nowhere'' = Undefined"
  by code_simp+

lemma strict_facts:
  "languageCode strict_ctx = Some ''pt-br''"
  "shortLanguageCode strict_ctx = Some ''pt''"
  "\<not> flag_set (defaultLanguageOnMissing (ctx_config strict_ctx))"
  "\<not> flag_set (allowMissing (ctx_config strict_ctx))"
  "getTemplate strict_ctx (Some ''pt-br'') ''nowhere'' = Undefined"
  "getTemplate strict_ctx (Some ''pt'') ''nowhere'' = Undefined"
  by code_simp+

theorem t_fallback_chain_witness:
  "ctx_t example_vm lenient_ctx ''hello'' None = Inr ''Oi''
   \<and> ctx_t example_vm lenient_ctx ''base_only'' None = Inr ''So base''
   \<and> ctx_t example_vm lenient_ctx ''only_default'' None = Inr ''Default only''
   \<and> ctx_t example_vm lenient_ctx ''nowhere'' None = Inr ''nowhere''
   \<and> ctx_t example_vm strict_ctx ''nowhere'' None
       = Inl (Error (''@tgify/i18n: '' @ [CHR 0x27] @ ''pt-br.nowhere'' @ [CHR 0x27] @ '' not found''))"
  using t_fallback_chain[where m = example_vm and c = lenient_ctx and key = "''hello''"
          and tdata = None, OF refl refl refl refl]
        t_fallback_chain[where m = example_vm and c = lenient_ctx and key = "''base_only''"
          and tdata = None, OF refl refl refl refl]
        t_fallback_chain[where m = example_vm and c = lenient_ctx and key = "''only_default''"
          and tdata = None, OF refl refl refl refl]
        t_fallback_chain[where m = example_vm and c = lenient_ctx and key = "''nowhere''"
          and tdata = None, OF refl refl refl refl]
        t_fallback_chain[where m = example_vm and c = strict_ctx and key = "''nowhere''"
          and tdata = None, OF refl refl refl refl]
  by (simp add: lenient_facts strict_facts)

text \<open>
  The claim as first stated sends every lookup that yields no Renderer on to the default
  locale and to the raw key. Under \<open>pt-br\<close> the key \<open>about\<close> holds a tree, the default
  locale holds a Renderer for it, and both flags are set: \<open>t\<close> neither renders the
  default text nor returns the raw key, it fails.
\<close>

theorem t_tree_node_counterexample:
  "getTemplate lenient_ctx (languageCode lenient_ctx) ''about'' = Obj [(''team'', Fn (Constant ''Equipe''))]
   \<and> getTemplate lenient_ctx (shortLanguageCode lenient_ctx) ''about'' = Undefined
   \<and> defaultLanguageOnMissing (ctx_config lenient_ctx) = Some True
   \<and> allowMissing (ctx_config lenient_ctx) = Some True
   \<and> getTemplate lenient_ctx (Some (defaultLanguage (ctx_config lenient_ctx))) ''about''
       = Fn (Constant ''About us'')
   \<and> ctx_t example_vm lenient_ctx ''about'' None \<noteq> Inr ''About us''
   \<and> ctx_t example_vm lenient_ctx ''about'' None \<noteq> Inr ''about''
   \<and> ctx_t example_vm lenient_ctx ''about'' None
       = Inl (Error (''@tgify/i18n: '' @ [CHR 0x27] @ ''pt-br.about'' @ [CHR 0x27] @ '' not found''))"
  by code_simp

text \<open>
  C10. For every context and dotted key whose lookup under the effective locale, or under
  the base when the effective locale gives \<open>undefined\<close> or \<open>null\<close>, yields a
  non-function object (a tree or a sequence), \<open>t\<close> settles on that object and raises the
  not-found error whatever the two flags are, both set included: a truthy value found
  keeps the default-locale and raw-key branches from running.
\<close>

theorem tree_node_suppresses_fallbacks:
  assumes "is_tree_node v"
      and "getTemplate c (languageCode c) key = v
           \<or> ((getTemplate c (languageCode c) key = Undefined \<or> getTemplate c (languageCode c) key = Null)
               \<and> getTemplate c (shortLanguageCode c) key = v)"
  shows "resolve_template c key = v
       \<and> ctx_t m c key tdata = Inl (not_found (languageCode c) key)
       \<and> (\<forall>w. truthy w \<and> nullish_or (getTemplate c (languageCode c) key)
                             (getTemplate c (shortLanguageCode c) key) = w \<longrightarrow>
              resolve_template c key = w)"
proof -
  from assms have found:
    "nullish_or (getTemplate c (languageCode c) key) (getTemplate c (shortLanguageCode c) key) = v"
    by (cases v) auto
  from assms(1) have tv: "truthy v" and nf: "\<forall>r. v \<noteq> Fn r" by (cases v; simp)+
  from found tv have r: "resolve_template c key = v"
    by (simp add: resolve_template_cases[OF refl refl])
  with nf have "\<forall>r. resolve_template c key \<noteq> Fn r" by simp
  then have "ctx_t m c key tdata = Inl (not_found (languageCode c) key)"
    by (rule ctx_t_of_resolved(2))
  with r show ?thesis
    by (simp add: resolve_template_cases[OF refl refl])
qed

lemma node_facts:
  "is_tree_node (Obj [(''title'', Fn (Constant ''Cardapio''))])"
  "getTemplate lenient_ctx (languageCode lenient_ctx) ''menu'' = Obj [(''title'', Fn (Constant ''Cardapio''))]"
  "is_tree_node (Obj [(''note'', Fn (Constant ''Nota''))])"
  "getTemplate lenient_ctx (languageCode lenient_ctx) ''footer'' = Undefined"
  "getTemplate lenient_ctx (shortLanguageCode lenient_ctx) ''footer'' = Obj [(''note'', Fn (Constant ''Nota''))]"
  "is_tree_node (Arr [Fn (Constant ''Tea''), Fn (Constant ''Cake'')])"
  "getTemplate lenient_en_ctx (languageCode lenient_en_ctx) ''menu.items''
     = Arr [Fn (Constant ''Tea''), Fn (Constant ''Cake'')]"
  "not_found (languageCode lenient_ctx) ''menu''
     = Error (''@tgify/i18n: '' @ [CHR 0x27] @ ''pt-br.menu'' @ [CHR 0x27] @ '' not found'')"
  "not_found (languageCode lenient_ctx) ''footer''
     = Error (''@tgify/i18n: '' @ [CHR 0x27] @ ''pt-br.footer'' @ [CHR 0x27] @ '' not found'')"
  "not_found (languageCode lenient_en_ctx) ''menu.items''
     = Error (''@tgify/i18n: '' @ [CHR 0x27] @ ''en.menu.items'' @ [CHR 0x27] @ '' not found'')"
  "allowMissing (ctx_config lenient_ctx) = Some True"
  "defaultLanguageOnMissing (ctx_config lenient_ctx) = Some True"
  by code_simp+

theorem tree_node_suppresses_fallbacks_witness:
  "allowMissing (ctx_config lenient_ctx) = Some True
   \<and> defaultLanguageOnMissing (ctx_config lenient_ctx) = Some True
   \<and> ctx_t example_vm lenient_ctx ''menu'' None
       = Inl (Error (''@tgify/i18n: '' @ [CHR 0x27] @ ''pt-br.menu'' @ [CHR 0x27] @ '' not found''))
   \<and> ctx_t example_vm lenient_ctx ''footer'' None
       = Inl (Error (''@tgify/i18n: '' @ [CHR 0x27] @ ''pt-br.footer'' @ [CHR 0x27] @ '' not found''))
   \<and> ctx_t example_vm lenient_en_ctx ''menu.items'' None
       = Inl (Error (''@tgify/i18n: '' @ [CHR 0x27] @ ''en.menu.items'' @ [CHR 0x27] @ '' not found''))"
  using tree_node_suppresses_fallbacks[OF node_facts(1), of lenient_ctx "''menu''" example_vm None]
        tree_node_suppresses_fallbacks[OF node_facts(3), of lenient_ctx "''footer''" example_vm None]
        tree_node_suppresses_fallbacks[OF node_facts(6), of lenient_en_ctx "''menu.items''" example_vm None]
  by (simp add: node_facts)

section \<open>Further properties of the store and the context\<close>

text \<open>Normalization of a locale tag is idempotent.\<close>

theorem normalizeLocale_twice:
  "normalizeLocale (full (normalizeLocale t)) = normalizeLocale t
   \<and> normalizeLang (normalizeLang t) = normalizeLang t"
  by (simp add: normalizeLocale_idempotent normalizeLang_idempotent)

text \<open>
  Coverage symmetry: the keys missing from \<open>x\<close> with respect to \<open>y\<close> are the keys
  overspecified in \<open>y\<close> with respect to \<open>x\<close>.
\<close>

theorem coverage_symmetry:
  "fst (missingKeys s x (Some y)) = fst (overspecifiedKeys s y (Some x))"
  by (simp add: overspecifiedKeys_symmetry)

text \<open>
  Locale resolution on a tag that is not empty: the context keeps the lower-cased tag and
  its base when the repository has a tree for either, and takes the default language
  otherwise. With \<open>en\<close> loaded and \<open>en-us\<close> not, the tag \<open>en-us\<close> is kept and the
  base lookup finds the English tree.
\<close>

theorem locale_resolution:
  assumes "tag \<noteq> []"
      and "code = toLowerCase tag"
      and "shortCode = split_first (CHR ''-'') code"
  shows "fst (ctx_locale c (Some tag)) =
     (if map_of (ctx_repository c) code \<noteq> None \<or> map_of (ctx_repository c) shortCode \<noteq> None
      then c\<lparr>languageCode := Some code, shortLanguageCode := Some shortCode\<rparr>
      else c\<lparr>languageCode := Some (defaultLanguage (ctx_config c)),
             shortLanguageCode := Some (split_first (CHR ''-'') (defaultLanguage (ctx_config c)))\<rparr>)"
  using assms by (simp add: ctx_locale_def Let_def)

lemma en_us_facts:
  "''EN-us'' \<noteq> []"
  "toLowerCase ''EN-us'' = ''en-us''"
  "split_first (CHR ''-'') ''en-us'' = ''en''"
  "map_of (ctx_repository lenient_en_ctx) ''en-us'' = None"
  "map_of (ctx_repository lenient_en_ctx) ''en'' \<noteq> None"
  "''xx'' \<noteq> []"
  "toLowerCase ''xx'' = ''xx''"
  "split_first (CHR ''-'') ''xx'' = ''xx''"
  "map_of (ctx_repository lenient_ctx) ''xx'' = None"
  "defaultLanguage (ctx_config lenient_ctx) = ''en''"
  "split_first (CHR ''-'') ''en'' = ''en''"
  "ctx_t example_vm (fst (ctx_locale lenient_en_ctx (Some ''EN-us''))) ''hello'' None = Inr ''Hello''"
  by code_simp+

theorem locale_resolution_witness:
  "languageCode (fst (ctx_locale lenient_en_ctx (Some ''EN-us''))) = Some ''en-us''
   \<and> shortLanguageCode (fst (ctx_locale lenient_en_ctx (Some ''EN-us''))) = Some ''en''
   \<and> ctx_t example_vm (fst (ctx_locale lenient_en_ctx (Some ''EN-us''))) ''hello'' None = Inr ''Hello''
   \<and> languageCode (fst (ctx_locale lenient_ctx (Some ''xx''))) = Some ''en''
   \<and> shortLanguageCode (fst (ctx_locale lenient_ctx (Some ''xx''))) = Some ''en''"
proof -
  from locale_resolution[OF en_us_facts(1) refl refl, of lenient_en_ctx]
       locale_resolution[OF en_us_facts(6) refl refl, of lenient_ctx]
  have "languageCode (fst (ctx_locale lenient_en_ctx (Some ''EN-us''))) = Some ''en-us''
      \<and> shortLanguageCode (fst (ctx_locale lenient_en_ctx (Some ''EN-us''))) = Some ''en''
      \<and> languageCode (fst (ctx_locale lenient_ctx (Some ''xx''))) = Some ''en''
      \<and> shortLanguageCode (fst (ctx_locale lenient_ctx (Some ''xx''))) = Some ''en''"
    by (simp add: en_us_facts(2-11))
  with en_us_facts(12) show ?thesis by blast
qed

text \<open>
  A load that succeeds removes the key cache entry of its locale and touches no other
  entry, so the next \<open>resourceKeys\<close> of that locale walks the merged tree.
\<close>

lemma toLowerCase_normalized:
  "toLowerCase (full (normalizeLocale lc)) = full (normalizeLocale lc)"
proof -
  have l: "lower_char (norm_char ch) = norm_char ch" for ch
    by (simp add: norm_char_def lower_char_idem lower_char_hyphen)
  have f: "full (normalizeLocale lc) = map norm_char (trim lc)"
    by (simp add: normalizeLocale_def Let_def normalize_as_map)
  show ?thesis
    unfolding f by (simp add: toLowerCase_def l)
qed

lemma map_of_delete_prop: "map_of (delete_prop k ps) = (map_of ps)(k := None)"
  by (induction ps) (auto simp: delete_prop_def fun_eq_iff)

theorem loadLocale_invalidates_cache:
  assumes "loadLocale m s lc d = (s', None)"
  shows "map_of (keysCache s') (full (normalizeLocale lc)) = None
       \<and> (\<forall>l. full (normalizeLocale lc) \<noteq> [] \<and> l \<noteq> full (normalizeLocale lc) \<longrightarrow>
              map_of (keysCache s') l = map_of (keysCache s) l)
       \<and> fst (resourceKeys s' lc) =
           getTemplateKeysRecursive (or_empty (map_of (repository s') (full (normalizeLocale lc)))) []"
proof -
  let ?l = "full (normalizeLocale lc)"
  from assms obtain B where
    s': "s' = invalidate (s\<lparr>repository := set_prop ?l
               (deepMerge (or_empty (map_of (repository s) ?l)) B) (repository s)\<rparr>) (Some ?l)"
    by (auto simp: loadLocale_def Let_def split: sum.splits jsval.splits)
  have k: "keysCache s' = (if ?l = [] then [] else delete_prop ?l (keysCache s))"
    unfolding s' by (simp add: invalidate_def toLowerCase_normalized)
  have 1: "map_of (keysCache s') ?l = None"
    by (simp add: k map_of_delete_prop)
  have 2: "map_of (keysCache s') l = map_of (keysCache s) l" if "?l \<noteq> []" "l \<noteq> ?l" for l
    using that by (simp add: k map_of_delete_prop)
  from 1 have 3: "fst (resourceKeys s' lc) =
           getTemplateKeysRecursive (or_empty (map_of (repository s') ?l)) []"
    by (simp add: resourceKeys_def Let_def)
  from 1 2 3 show ?thesis by blast
qed

lemma cache_facts:
  "loadLocale example_vm cached_store ''FR'' (Obj raw_b)
     = (fst (loadLocale example_vm cached_store ''FR'' (Obj raw_b)), None)"
  "full (normalizeLocale ''FR'') = ''fr''"
  "map_of (keysCache cached_store) ''fr'' = Some [''menu.title'', ''menu.items'', ''hello'', ''bye'']"
  "map_of (keysCache cached_store) ''de'' = Some []"
  "getTemplateKeysRecursive
     (or_empty (map_of (repository (fst (loadLocale example_vm cached_store ''FR'' (Obj raw_b)))) ''fr'')) []
     = [''menu.title'', ''menu.items'', ''hello'', ''bye'', ''extra'']"
  by code_simp+

theorem loadLocale_invalidates_cache_witness:
  "map_of (keysCache cached_store) ''fr'' \<noteq> None
   \<and> map_of (keysCache (fst (loadLocale example_vm cached_store ''FR'' (Obj raw_b)))) ''fr'' = None
   \<and> map_of (keysCache (fst (loadLocale example_vm cached_store ''FR'' (Obj raw_b)))) ''de'' = Some []
   \<and> fst (resourceKeys (fst (loadLocale example_vm cached_store ''FR'' (Obj raw_b))) ''FR'')
       = [''menu.title'', ''menu.items'', ''hello'', ''bye'', ''extra'']"
  using loadLocale_invalidates_cache[OF cache_facts(1)]
  by (simp add: cache_facts(2-5))

text \<open>
  When the value thrown in the sandbox has a description, that is when it is an error
  object, the time budget's included, or any other value with a \<open>toString\<close>, the
  compiled renderer raises one \<open>Error\<close> whose message is the description and returns no
  string, and so does \<open>t\<close>. Whatever is thrown, the renderer returns no string.
\<close>

theorem renderer_failure_is_wrapped:
  assumes "compile m template defaultContext ops = Inr r"
      and "runInNewContext m (escape template)
             (assign (assign [] (or_empty defaultContext)) context) (or_default 500 ops) = Inl err"
  shows "(\<forall>s. call_renderer m r context \<noteq> Inr s)
       \<and> (\<forall>d. toString err = Inr d \<longrightarrow>
             call_renderer m r context = Inl (Error d)
           \<and> (\<forall>c key tdata. resolve_template c key = Fn r \<and> render_context c tdata = context \<longrightarrow>
                 ctx_t m c key tdata = Inl (Error d)))"
proof -
  from assms(1) have r: "r = Compiled template defaultContext (or_default 500 ops)"
    by (auto simp: compile_def Let_def split: option.splits)
  with assms(2) have c: "call_renderer m r context =
      (case toString err of Inl e \<Rightarrow> Inl e | Inr d \<Rightarrow> Inl (Error d))"
    by simp
  then show ?thesis
    by (auto simp: ctx_t_def split: sum.splits)
qed

lemma broken_facts:
  "compile example_vm ''${boom()}'' None None = Inr (Compiled ''${boom()}'' None 500)"
  "runInNewContext example_vm (escape ''${boom()}'')
     (assign (assign [] (or_empty None)) (render_context lenient_en_ctx None))
     (or_default 500 None) = Inl (Thrown ''ReferenceError: boom is not defined'')"
  "resolve_template lenient_en_ctx ''broken'' = Fn (Compiled ''${boom()}'' None 500)"
  by code_simp+

theorem renderer_failure_is_wrapped_witness:
  "compile example_vm ''${boom()}'' None None = Inr (Compiled ''${boom()}'' None 500)
   \<and> ctx_t example_vm lenient_en_ctx ''broken'' None
       = Inl (Error ''ReferenceError: boom is not defined'')"
  using renderer_failure_is_wrapped[OF broken_facts(1) broken_facts(2)]
  by (simp add: broken_facts)

end
